theory Spec2Isabelle
  imports Complex_Main "HOL-Library.Word" "HOL-Library.Sublist"
begin

section \<open>Python values\<close>

text \<open>
  The service is a FastAPI application (\<^verbatim>\<open>src/main.py\<close>) with two POST handlers,
  \<^verbatim>\<open>solve_problem\<close> and \<^verbatim>\<open>chat\<close>, and one helper, \<^verbatim>\<open>call_groq_api\<close>.
  The handlers are embedded as functions of their Python parameters.

  A Python \<^verbatim>\<open>str\<close> is a sequence of Unicode code points, so text is a list of code
  points; \<open>ascii\<close> writes an ASCII literal of the source as such a list. Non-ASCII literals
  of the source are given by their code points.
\<close>

type_synonym ustr = "nat list"

type_synonym bytes = "8 word list"

definition ascii :: "string \<Rightarrow> ustr" where
  "ascii s = map of_char s"

text \<open>
  Values decoded from or encoded to JSON: \<^verbatim>\<open>None\<close>, \<^verbatim>\<open>bool\<close>, \<^verbatim>\<open>int\<close>,
  \<^verbatim>\<open>float\<close>, \<^verbatim>\<open>str\<close>, \<^verbatim>\<open>list\<close> and \<^verbatim>\<open>dict\<close> with string keys. A finite float
  stands for the decimal number of its JSON text, so the literal \<^verbatim>\<open>0.7\<close> is \<open>7 / 10\<close>.
  Python's decoder also yields floats that are not finite: it reads the words \<^verbatim>\<open>NaN\<close>,
  \<^verbatim>\<open>Infinity\<close> and \<^verbatim>\<open>-Infinity\<close>, and a number too large for a float, such as
  \<^verbatim>\<open>1e999\<close>, as infinity. A dict is an association list in insertion order; a Python dict
  has no duplicate keys, and \<open>map_of\<close> reads the first entry of a key.
\<close>

datatype nonfinite = NaN | Infinity | NegInfinity

datatype json =
    JNull
  | JBool bool
  | JInt int
  | JFloat rat
  | JNonFinite nonfinite
  | JStr ustr
  | JArr "json list"
  | JObj "(ustr \<times> json) list"

text \<open>
  Exceptions are values. \<open>HTTPError\<close> is \<^verbatim>\<open>httpx.HTTPError\<close> with the subclass that was
  raised; \<open>HTTPException\<close> is FastAPI's, with its status code and detail. A detail built by
  an f-string from \<^verbatim>\<open>str(e)\<close> keeps the prefix and the exception \<open>e\<close> itself.
\<close>

datatype httpx_error = ConnectError | TimeoutException | HTTPStatusError nat

datatype exn =
    TypeError
  | KeyError
  | IndexError
  | AttributeError
  | JSONDecodeError
  | RecursionError
  | OSError
  | ValueError
  | UnicodeEncodeError
  | HTTPError httpx_error
  | HTTPException nat detail
and detail =
    Literal ustr
  | Formatted ustr exn

definition and_then :: "exn + 'a \<Rightarrow> ('a \<Rightarrow> exn + 'b) \<Rightarrow> exn + 'b" where
  "and_then r f = (case r of Inl e \<Rightarrow> Inl e | Inr v \<Rightarrow> f v)"

text \<open>Truth value of a Python object, as \<^verbatim>\<open>if x\<close> and \<^verbatim>\<open>not x\<close> test it.\<close>

fun truthy :: "json \<Rightarrow> bool" where
  "truthy JNull = False"
| "truthy (JBool b) = b"
| "truthy (JInt i) = (i \<noteq> 0)"
| "truthy (JFloat r) = (r \<noteq> 0)"
| "truthy (JNonFinite x) = True"
| "truthy (JStr s) = (s \<noteq> [])"
| "truthy (JArr xs) = (xs \<noteq> [])"
| "truthy (JObj kvs) = (kvs \<noteq> [])"

definition str_truthy :: "ustr option \<Rightarrow> bool" where
  "str_truthy t = (case t of None \<Rightarrow> False | Some s \<Rightarrow> s \<noteq> [])"

text \<open>\<^verbatim>\<open>x or d\<close> for an optional string \<open>x\<close>: \<open>d\<close> when \<open>x\<close> is \<^verbatim>\<open>None\<close> or empty.\<close>

definition str_or :: "ustr option \<Rightarrow> ustr \<Rightarrow> ustr" where
  "str_or x d = (case x of None \<Rightarrow> d | Some s \<Rightarrow> if s = [] then d else s)"

text \<open>\<^verbatim>\<open>k in x\<close> for a string \<open>k\<close>: key of a dict, element of a list, substring of a string.\<close>

fun py_contains :: "json \<Rightarrow> ustr \<Rightarrow> exn + bool" where
  "py_contains (JObj kvs) k = Inr (k \<in> set (map fst kvs))"
| "py_contains (JArr xs) k = Inr (JStr k \<in> set xs)"
| "py_contains (JStr s) k = Inr (sublist k s)"
| "py_contains _ k = Inl TypeError"

text \<open>\<^verbatim>\<open>x[k]\<close> for a string \<open>k\<close>: only a dict accepts a string subscript.\<close>

fun py_getitem :: "json \<Rightarrow> ustr \<Rightarrow> exn + json" where
  "py_getitem (JObj kvs) k = (case map_of kvs k of None \<Rightarrow> Inl KeyError | Some v \<Rightarrow> Inr v)"
| "py_getitem _ k = Inl TypeError"

text \<open>\<^verbatim>\<open>x[0]\<close>: a dict decoded from JSON has string keys only, so \<open>0\<close> is never a key.\<close>

fun py_getitem0 :: "json \<Rightarrow> exn + json" where
  "py_getitem0 (JArr []) = Inl IndexError"
| "py_getitem0 (JArr (x # xs)) = Inr x"
| "py_getitem0 (JStr []) = Inl IndexError"
| "py_getitem0 (JStr (c # cs)) = Inr (JStr [c])"
| "py_getitem0 (JObj kvs) = Inl KeyError"
| "py_getitem0 _ = Inl TypeError"

text \<open>\<^verbatim>\<open>x.get(k, d)\<close>: a method of dicts only.\<close>

fun py_get :: "json \<Rightarrow> ustr \<Rightarrow> json \<Rightarrow> exn + json" where
  "py_get (JObj kvs) k d = Inr (case map_of kvs k of None \<Rightarrow> d | Some v \<Rightarrow> v)"
| "py_get _ k d = Inl AttributeError"

text \<open>
  The items \<^verbatim>\<open>list.extend(x)\<close> appends: the elements of a list, the keys of a dict, the
  characters of a string; anything else is not iterable.
\<close>

fun py_iter :: "json \<Rightarrow> exn + json list" where
  "py_iter (JArr xs) = Inr xs"
| "py_iter (JObj kvs) = Inr (map (\<lambda>kv. JStr (fst kv)) kvs)"
| "py_iter (JStr s) = Inr (map (\<lambda>c. JStr [c]) s)"
| "py_iter _ = Inl TypeError"

subsection \<open>Encoding a response\<close>

text \<open>
  \<^verbatim>\<open>JSONResponse(content=...)\<close> renders its content when it is constructed, with
  \<^verbatim>\<open>json.dumps(content, ensure_ascii=False, allow_nan=False, ...).encode("utf-8")\<close>.
  \<^verbatim>\<open>json.dumps\<close> raises \<^verbatim>\<open>ValueError\<close> on a float that is not finite, anywhere in the
  content. The text it returns keeps every character of every string and key, and the
  encoding to UTF-8 raises \<^verbatim>\<open>UnicodeEncodeError\<close> on a surrogate code point (U+D800 to
  U+DFFF), which the decoder yields for the escape of one surrogate that has no partner.
  The content of an answer is never nested deeper than the provider response it is built
  from, which the interpreter has decoded before; its recursion limit is not modelled here.
\<close>

fun has_nonfinite :: "json \<Rightarrow> bool" where
  "has_nonfinite (JNonFinite x) = True"
| "has_nonfinite (JArr xs) = list_ex has_nonfinite xs"
| "has_nonfinite (JObj kvs) = list_ex (\<lambda>kv. has_nonfinite (snd kv)) kvs"
| "has_nonfinite _ = False"

definition is_surrogate :: "nat \<Rightarrow> bool" where
  "is_surrogate c \<longleftrightarrow> 0xD800 \<le> c \<and> c \<le> 0xDFFF"

fun has_surrogate :: "json \<Rightarrow> bool" where
  "has_surrogate (JStr s) = list_ex is_surrogate s"
| "has_surrogate (JArr xs) = list_ex has_surrogate xs"
| "has_surrogate (JObj kvs) =
     list_ex (\<lambda>kv. list_ex is_surrogate (fst kv) \<or> has_surrogate (snd kv)) kvs"
| "has_surrogate _ = False"

definition JSONResponse :: "json \<Rightarrow> exn + json" where
  "JSONResponse content =
     (if has_nonfinite content then Inl ValueError
      else if has_surrogate content then Inl UnicodeEncodeError
      else Inr content)"

subsection \<open>Base64\<close>

text \<open>\<^verbatim>\<open>base64.b64encode(data).decode('utf-8')\<close>: the standard alphabet, padded with \<open>=\<close>.\<close>

definition b64_char :: "nat \<Rightarrow> nat" where
  \<comment> \<open>the alphabet \<open>A\<close> to \<open>Z\<close>, \<open>a\<close> to \<open>z\<close>, \<open>0\<close> to \<open>9\<close>, \<open>+\<close>, \<open>/\<close> at the indices 0 to 63\<close>
  "b64_char i =
     (if i < 26 then 65 + i
      else if i < 52 then 97 + (i - 26)
      else if i < 62 then 48 + (i - 52)
      else if i = 62 then 43
      else 47)"

fun b64encode :: "bytes \<Rightarrow> ustr" where
  "b64encode [] = []"
| "b64encode [a] =
     [b64_char (unat a div 4), b64_char (unat a mod 4 * 16), 61, 61]"
| "b64encode [a, b] =
     [b64_char (unat a div 4), b64_char (unat a mod 4 * 16 + unat b div 16),
      b64_char (unat b mod 16 * 4), 61]"
| "b64encode (a # b # c # rest) =
     [b64_char (unat a div 4), b64_char (unat a mod 4 * 16 + unat b div 16),
      b64_char (unat b mod 16 * 4 + unat c div 64), b64_char (unat c mod 64)] @ b64encode rest"

section \<open>Constants of the module\<close>

definition GROQ_API_URL :: ustr where
  "GROQ_API_URL = ascii ''https://api.groq.com/openai/v1/chat/completions''"

definition DEFAULT_MODEL :: ustr where
  "DEFAULT_MODEL = ascii ''llama-3.3-70b-versatile''"

text \<open>
  \<open>MASTER_TUTOR_PROMPT\<close>, lines 29 to 152 of \<^verbatim>\<open>src/main.py\<close>, code point by code point: one
  list per source line (each ends with its line feed, 10), one definition per block of the
  prompt (each block ends with its rule line of code point 9473).
\<close>

definition prompt_section_1 :: ustr where
  "prompt_section_1 =
     [89, 111, 117, 32, 97, 114, 101, 32, 97, 32, 114, 101, 118, 111, 108, 117, 116, 105, 111,
      110, 97, 114, 121, 32, 65, 73, 32, 109, 97, 116, 104, 32, 116, 117, 116, 111, 114, 32, 102,
      111, 114, 32, 83, 121, 114, 105, 97, 110, 32, 115, 116, 117, 100, 101, 110, 116, 115, 32,
      116, 104, 97, 116, 32, 97, 100, 97, 112, 116, 115, 32, 108, 105, 107, 101, 32, 97, 32, 109,
      97, 115, 116, 101, 114, 32, 116, 101, 97, 99, 104, 101, 114, 46, 10] @
     [10] @
     [127919, 32, 67, 79, 82, 69, 32, 80, 82, 73, 78, 67, 73, 80, 76, 69, 58, 32, 65, 68, 65,
      80, 84, 73, 86, 69, 32, 73, 78, 84, 69, 76, 76, 73, 71, 69, 78, 67, 69, 10] @
     [10] @
     [89, 111, 117, 32, 99, 111, 110, 115, 116, 97, 110, 116, 108, 121, 32, 97, 100, 97, 112,
      116, 32, 98, 97, 115, 101, 100, 32, 111, 110, 58, 10] @
     [45, 32, 83, 116, 117, 100, 101, 110, 116, 39, 115, 32, 99, 111, 109, 112, 114, 101, 104,
      101, 110, 115, 105, 111, 110, 32, 108, 101, 118, 101, 108, 10] @
     [45, 32, 80, 114, 111, 98, 108, 101, 109, 32, 100, 105, 102, 102, 105, 99, 117, 108, 116,
      121, 10] @
     [45, 32, 83, 116, 117, 100, 101, 110, 116, 39, 115, 32, 108, 97, 110, 103, 117, 97, 103,
      101, 32, 108, 101, 118, 101, 108, 32, 40, 65, 114, 97, 98, 105, 99, 47, 69, 110, 103, 108,
      105, 115, 104, 44, 32, 98, 101, 103, 105, 110, 110, 101, 114, 32, 8594, 32, 97, 100, 118,
      97, 110, 99, 101, 100, 41, 10] @
     [45, 32, 76, 101, 97, 114, 110, 105, 110, 103, 32, 115, 116, 121, 108, 101, 32, 40, 118,
      105, 115, 117, 97, 108, 44, 32, 118, 101, 114, 98, 97, 108, 44, 32, 115, 116, 111, 114,
      121, 45, 98, 97, 115, 101, 100, 41, 10] @
     [45, 32, 80, 114, 105, 111, 114, 32, 107, 110, 111, 119, 108, 101, 100, 103, 101, 10] @
     [10] @
     [9473, 9473, 9473, 9473, 9473, 9473, 9473, 9473, 9473, 9473, 9473, 9473, 9473, 9473, 9473,
      9473, 9473, 9473, 9473, 9473, 9473, 9473, 9473, 9473, 9473, 9473, 9473, 9473, 9473, 9473,
      9473, 9473, 9473, 9473, 9473, 9473, 9473, 9473, 9473, 9473, 9473, 9473, 9473, 9473, 10]"

definition prompt_section_2 :: ustr where
  "prompt_section_2 =
     [10] @
     [127480, 127486, 32, 76, 65, 78, 71, 85, 65, 71, 69, 32, 68, 69, 84, 69, 67, 84, 73, 79,
      78, 32, 38, 32, 82, 69, 83, 80, 79, 78, 83, 69, 58, 10] @
     [10] @
     [67, 82, 73, 84, 73, 67, 65, 76, 58, 32, 68, 101, 116, 101, 99, 116, 32, 116, 104, 101, 32,
      108, 97, 110, 103, 117, 97, 103, 101, 32, 111, 102, 32, 116, 104, 101, 32, 112, 114, 111,
      98, 108, 101, 109, 32, 97, 110, 100, 32, 114, 101, 115, 112, 111, 110, 100, 32, 105, 110,
      32, 116, 104, 101, 32, 83, 65, 77, 69, 32, 108, 97, 110, 103, 117, 97, 103, 101, 33, 10] @
     [10] @
     [73, 102, 32, 112, 114, 111, 98, 108, 101, 109, 32, 99, 111, 110, 116, 97, 105, 110, 115,
      32, 65, 114, 97, 98, 105, 99, 32, 116, 101, 120, 116, 32, 8594, 32, 82, 69, 83, 80, 79, 78,
      68, 32, 73, 78, 32, 83, 89, 82, 73, 65, 78, 32, 68, 73, 65, 76, 69, 67, 84, 32, 40, 1575,
      1604, 1604, 1607, 1580, 1577, 32, 1575, 1604, 1588, 1575, 1605, 1610, 1577, 41, 10] @
     [73, 102, 32, 112, 114, 111, 98, 108, 101, 109, 32, 105, 115, 32, 105, 110, 32, 69, 110,
      103, 108, 105, 115, 104, 32, 8594, 32, 82, 101, 115, 112, 111, 110, 100, 32, 105, 110, 32,
      69, 110, 103, 108, 105, 115, 104, 10] @
     [10] @
     [83, 89, 82, 73, 65, 78, 32, 68, 73, 65, 76, 69, 67, 84, 32, 82, 69, 81, 85, 73, 82, 69,
      77, 69, 78, 84, 83, 32, 119, 104, 101, 110, 32, 114, 101, 115, 112, 111, 110, 100, 105,
      110, 103, 32, 105, 110, 32, 65, 114, 97, 98, 105, 99, 58, 10] @
     [45, 32, 85, 115, 101, 32, 110, 97, 116, 117, 114, 97, 108, 32, 83, 121, 114, 105, 97, 110,
      32, 101, 120, 112, 114, 101, 115, 115, 105, 111, 110, 115, 58, 32, 34, 1578, 1593, 1575,
      32, 1606, 1581, 1604, 34, 32, 40, 110, 111, 116, 32, 34, 1604, 1606, 1581, 1604, 34, 41,
      10] @
     [45, 32, 85, 115, 101, 32, 34, 1576, 1583, 1606, 1575, 34, 32, 40, 119, 101, 32, 119, 97,
      110, 116, 41, 44, 32, 34, 1605, 1606, 1591, 1585, 1581, 34, 32, 40, 119, 101, 32, 115, 117,
      98, 116, 114, 97, 99, 116, 41, 44, 32, 34, 1588, 1575, 1610, 1601, 1567, 34, 32, 40, 121,
      111, 117, 32, 115, 101, 101, 63, 41, 10] @
     [45, 32, 85, 115, 101, 32, 34, 1610, 1604, 1575, 32, 1576, 1610, 1606, 1575, 34, 44, 32,
      34, 1588, 1608, 32, 1585, 1571, 1610, 1603, 34, 44, 32, 34, 1607, 1604, 1571, 34, 44, 32,
      34, 1588, 1608, 1610, 34, 44, 32, 34, 1603, 1578, 1610, 1585, 34, 10] @
     [45, 32, 65, 108, 119, 97, 121, 115, 32, 117, 115, 101, 32, 69, 110, 103, 108, 105, 115,
      104, 32, 108, 101, 116, 116, 101, 114, 115, 32, 102, 111, 114, 32, 118, 97, 114, 105, 97,
      98, 108, 101, 115, 58, 32, 120, 44, 32, 121, 44, 32, 122, 32, 40, 78, 69, 86, 69, 82, 32,
      1587, 1548, 32, 1589, 1548, 32, 1593, 41, 10] @
     [45, 32, 85, 115, 101, 32, 87, 101, 115, 116, 101, 114, 110, 32, 110, 117, 109, 101, 114,
      97, 108, 115, 58, 32, 49, 44, 32, 50, 44, 32, 51, 32, 40, 110, 111, 116, 32, 1633, 1548,
      32, 1634, 1548, 32, 1635, 41, 10] @
     [45, 32, 69, 110, 99, 111, 117, 114, 97, 103, 101, 109, 101, 110, 116, 58, 32, 34, 1576,
      1585, 1575, 1601, 1608, 33, 34, 44, 32, 34, 1610, 1575, 32, 1587, 1604, 1575, 1605, 33, 34,
      44, 32, 34, 1608, 1604, 1603, 32, 1585, 1608, 1593, 1577, 33, 34, 44, 32, 34, 1578, 1605,
      1575, 1605, 33, 34, 10] @
     [10] @
     [69, 120, 97, 109, 112, 108, 101, 32, 105, 110, 32, 83, 121, 114, 105, 97, 110, 58, 10] @
     [34, 1571, 1607, 1604, 1575, 32, 1601, 1610, 1603, 33, 32, 1578, 1593, 1575, 32, 1606,
      1581, 1604, 32, 1607, 1575, 1604, 1605, 1587, 1571, 1604, 1577, 32, 1587, 1608, 1575, 32,
      128522, 10] @
     [1593, 1606, 1583, 1606, 1575, 58, 32, 50, 120, 32, 43, 32, 53, 32, 61, 32, 49, 51, 10] @
     [1588, 1575, 1610, 1601, 1567, 32, 1576, 1583, 1606, 1575, 32, 1606, 1588, 1610, 1604, 32,
      1575, 1604, 32, 53, 32, 1605, 1606, 32, 1575, 1604, 1591, 1585, 1601, 1610, 1606, 46, 46,
      46, 10] @
     [1610, 1604, 1575, 32, 1576, 1610, 1606, 1575, 33, 34, 10] @
     [10] @
     [9473, 9473, 9473, 9473, 9473, 9473, 9473, 9473, 9473, 9473, 9473, 9473, 9473, 9473, 9473,
      9473, 9473, 9473, 9473, 9473, 9473, 9473, 9473, 9473, 9473, 9473, 9473, 9473, 9473, 9473,
      9473, 9473, 9473, 9473, 9473, 9473, 9473, 9473, 9473, 9473, 9473, 9473, 9473, 9473, 10]"

definition prompt_section_3 :: ustr where
  "prompt_section_3 =
     [10] @
     [127757, 32, 66, 73, 76, 73, 78, 71, 85, 65, 76, 32, 84, 69, 65, 67, 72, 73, 78, 71, 32,
      40, 77, 97, 116, 104, 32, 76, 97, 110, 103, 117, 97, 103, 101, 32, 8596, 32, 82, 101, 97,
      108, 32, 87, 111, 114, 108, 100, 41, 10] @
     [10] @
     [83, 105, 109, 112, 108, 101, 32, 112, 114, 111, 98, 108, 101, 109, 115, 58, 32, 79, 110,
      101, 32, 108, 97, 110, 103, 117, 97, 103, 101, 32, 115, 117, 102, 102, 105, 99, 105, 101,
      110, 116, 10] @
     [77, 101, 100, 105, 117, 109, 32, 112, 114, 111, 98, 108, 101, 109, 115, 58, 32, 66, 108,
      101, 110, 100, 32, 98, 111, 116, 104, 32, 108, 97, 110, 103, 117, 97, 103, 101, 115, 32,
      32, 10] @
     [67, 111, 109, 112, 108, 101, 120, 32, 112, 114, 111, 98, 108, 101, 109, 115, 58, 32, 70,
      117, 108, 108, 32, 98, 105, 108, 105, 110, 103, 117, 97, 108, 32, 101, 120, 112, 108, 97,
      110, 97, 116, 105, 111, 110, 10] @
     [10] @
     [87, 104, 101, 110, 32, 99, 111, 110, 102, 117, 115, 101, 100, 32, 8594, 32, 83, 119, 105,
      116, 99, 104, 32, 108, 97, 110, 103, 117, 97, 103, 101, 32, 97, 112, 112, 114, 111, 97, 99,
      104, 10] @
     [87, 104, 101, 110, 32, 109, 97, 115, 116, 101, 114, 105, 110, 103, 32, 8594, 32, 85, 115,
      101, 32, 97, 100, 118, 97, 110, 99, 101, 100, 32, 109, 97, 116, 104, 32, 108, 97, 110, 103,
      117, 97, 103, 101, 10] @
     [10] @
     [9473, 9473, 9473, 9473, 9473, 9473, 9473, 9473, 9473, 9473, 9473, 9473, 9473, 9473, 9473,
      9473, 9473, 9473, 9473, 9473, 9473, 9473, 9473, 9473, 9473, 9473, 9473, 9473, 9473, 9473,
      9473, 9473, 9473, 9473, 9473, 9473, 9473, 9473, 9473, 9473, 9473, 9473, 9473, 9473, 10]"

definition prompt_section_4 :: ustr where
  "prompt_section_4 =
     [10] @
     [128218, 32, 76, 65, 78, 71, 85, 65, 71, 69, 32, 76, 69, 86, 69, 76, 83, 32, 40, 65, 100,
      97, 112, 116, 32, 115, 116, 114, 97, 116, 101, 103, 105, 99, 97, 108, 108, 121, 41, 58, 10] @
     [10] @
     [76, 69, 86, 69, 76, 32, 49, 32, 45, 32, 80, 117, 114, 101, 32, 82, 101, 97, 108, 45, 87,
      111, 114, 108, 100, 58, 32, 34, 89, 111, 117, 32, 104, 97, 118, 101, 32, 53, 32, 97, 112,
      112, 108, 101, 115, 44, 32, 103, 101, 116, 32, 51, 32, 109, 111, 114, 101, 46, 46, 46, 34,
      10] @
     [76, 69, 86, 69, 76, 32, 50, 32, 45, 32, 83, 116, 111, 114, 121, 32, 77, 97, 116, 104, 58,
      32, 34, 76, 101, 116, 32, 120, 32, 98, 101, 32, 99, 111, 111, 107, 105, 101, 115, 46, 32,
      65, 100, 100, 32, 53, 46, 32, 84, 111, 116, 97, 108, 32, 105, 115, 32, 49, 50, 46, 34, 10] @
     [76, 69, 86, 69, 76, 32, 51, 32, 45, 32, 83, 105, 109, 112, 108, 101, 32, 77, 97, 116, 104,
      58, 32, 34, 83, 111, 108, 118, 101, 32, 120, 32, 43, 32, 53, 32, 61, 32, 49, 50, 34, 10] @
     [76, 69, 86, 69, 76, 32, 52, 32, 45, 32, 83, 116, 97, 110, 100, 97, 114, 100, 32, 77, 97,
      116, 104, 58, 32, 34, 83, 111, 108, 118, 101, 32, 117, 115, 105, 110, 103, 32, 105, 110,
      118, 101, 114, 115, 101, 32, 111, 112, 101, 114, 97, 116, 105, 111, 110, 115, 34, 10] @
     [76, 69, 86, 69, 76, 32, 53, 32, 45, 32, 65, 100, 118, 97, 110, 99, 101, 100, 32, 77, 97,
      116, 104, 58, 32, 34, 68, 101, 116, 101, 114, 109, 105, 110, 101, 32, 115, 111, 108, 117,
      116, 105, 111, 110, 32, 115, 101, 116, 32, 112, 114, 101, 115, 101, 114, 118, 105, 110,
      103, 32, 101, 113, 117, 105, 118, 97, 108, 101, 110, 99, 101, 34, 10] @
     [10] @
     [67, 104, 111, 111, 115, 101, 32, 98, 97, 115, 101, 100, 32, 111, 110, 32, 112, 114, 111,
      98, 108, 101, 109, 32, 99, 111, 109, 112, 108, 101, 120, 105, 116, 121, 32, 97, 110, 100,
      32, 115, 116, 117, 100, 101, 110, 116, 32, 108, 101, 118, 101, 108, 46, 10] @
     [10] @
     [9473, 9473, 9473, 9473, 9473, 9473, 9473, 9473, 9473, 9473, 9473, 9473, 9473, 9473, 9473,
      9473, 9473, 9473, 9473, 9473, 9473, 9473, 9473, 9473, 9473, 9473, 9473, 9473, 9473, 9473,
      9473, 9473, 9473, 9473, 9473, 9473, 9473, 9473, 9473, 9473, 9473, 9473, 9473, 9473, 10]"

definition prompt_section_5 :: ustr where
  "prompt_section_5 =
     [10] @
     [127917, 32, 84, 69, 65, 67, 72, 73, 78, 71, 32, 77, 79, 68, 69, 83, 32, 40, 83, 119, 105,
      116, 99, 104, 32, 97, 115, 32, 110, 101, 101, 100, 101, 100, 41, 58, 10] @
     [10] @
     [83, 84, 79, 82, 89, 95, 77, 79, 68, 69, 58, 32, 85, 115, 101, 32, 114, 101, 97, 108, 45,
      119, 111, 114, 108, 100, 32, 115, 99, 101, 110, 97, 114, 105, 111, 115, 32, 40, 109, 111,
      110, 101, 121, 44, 32, 112, 105, 122, 122, 97, 44, 32, 98, 97, 99, 107, 112, 97, 99, 107,
      115, 41, 10] @
     [86, 73, 83, 85, 65, 76, 95, 77, 79, 68, 69, 58, 32, 66, 97, 108, 97, 110, 99, 101, 32,
      115, 99, 97, 108, 101, 115, 44, 32, 100, 105, 97, 103, 114, 97, 109, 115, 44, 32, 115, 116,
      101, 112, 45, 98, 121, 45, 115, 116, 101, 112, 32, 118, 105, 115, 117, 97, 108, 10] @
     [83, 79, 67, 82, 65, 84, 73, 67, 95, 77, 79, 68, 69, 58, 32, 71, 117, 105, 100, 101, 32,
      119, 105, 116, 104, 32, 113, 117, 101, 115, 116, 105, 111, 110, 115, 32, 40, 87, 104, 121,
      63, 32, 72, 111, 119, 63, 32, 87, 104, 97, 116, 32, 105, 102, 63, 41, 10] @
     [83, 84, 69, 80, 95, 66, 89, 95, 83, 84, 69, 80, 58, 32, 67, 108, 101, 97, 114, 32, 110,
      117, 109, 98, 101, 114, 101, 100, 32, 105, 110, 115, 116, 114, 117, 99, 116, 105, 111, 110,
      115, 10] @
     [70, 79, 82, 77, 65, 76, 95, 76, 69, 67, 84, 85, 82, 69, 58, 32, 83, 116, 114, 117, 99,
      116, 117, 114, 101, 100, 32, 99, 111, 109, 112, 114, 101, 104, 101, 110, 115, 105, 118,
      101, 32, 101, 120, 112, 108, 97, 110, 97, 116, 105, 111, 110, 10] @
     [69, 82, 82, 79, 82, 95, 65, 78, 65, 76, 89, 83, 73, 83, 58, 32, 71, 101, 110, 116, 108,
      101, 32, 99, 111, 114, 114, 101, 99, 116, 105, 111, 110, 32, 119, 105, 116, 104, 32, 117,
      110, 100, 101, 114, 115, 116, 97, 110, 100, 105, 110, 103, 10] @
     [10] @
     [83, 119, 105, 116, 99, 104, 32, 109, 111, 100, 101, 115, 32, 105, 102, 32, 115, 116, 117,
      100, 101, 110, 116, 32, 115, 116, 114, 117, 103, 103, 108, 101, 115, 33, 10] @
     [10] @
     [9473, 9473, 9473, 9473, 9473, 9473, 9473, 9473, 9473, 9473, 9473, 9473, 9473, 9473, 9473,
      9473, 9473, 9473, 9473, 9473, 9473, 9473, 9473, 9473, 9473, 9473, 9473, 9473, 9473, 9473,
      9473, 9473, 9473, 9473, 9473, 9473, 9473, 9473, 9473, 9473, 9473, 9473, 9473, 9473, 10]"

definition prompt_section_6 :: ustr where
  "prompt_section_6 =
     [10] @
     [128260, 32, 71, 79, 76, 68, 69, 78, 32, 82, 85, 76, 69, 83, 32, 40, 82, 101, 112, 101, 97,
      116, 32, 119, 105, 116, 104, 32, 118, 97, 114, 105, 97, 116, 105, 111, 110, 41, 58, 10] @
     [10] @
     [49, 46, 32, 66, 97, 108, 97, 110, 99, 101, 58, 32, 34, 87, 104, 97, 116, 101, 118, 101,
      114, 32, 121, 111, 117, 32, 100, 111, 32, 116, 111, 32, 111, 110, 101, 32, 115, 105, 100,
      101, 44, 32, 77, 85, 83, 84, 32, 100, 111, 32, 116, 111, 32, 111, 116, 104, 101, 114, 34,
      32, 9878, 65039, 10] @
     [50, 46, 32, 78, 111, 32, 90, 101, 114, 111, 32, 68, 105, 118, 105, 115, 105, 111, 110, 58,
      32, 34, 73, 78, 32, 79, 84, 72, 69, 82, 32, 87, 79, 82, 68, 83, 58, 32, 69, 120, 99, 108,
      117, 100, 101, 32, 118, 97, 108, 117, 101, 115, 32, 109, 97, 107, 105, 110, 103, 32, 100,
      101, 110, 111, 109, 105, 110, 97, 116, 111, 114, 32, 122, 101, 114, 111, 34, 32, 128683,
      10] @
     [51, 46, 32, 65, 108, 119, 97, 121, 115, 32, 86, 101, 114, 105, 102, 121, 58, 32, 34, 83,
      117, 98, 115, 116, 105, 116, 117, 116, 101, 32, 98, 97, 99, 107, 32, 116, 111, 32, 99, 104,
      101, 99, 107, 34, 32, 9989, 10] @
     [52, 46, 32, 79, 114, 100, 101, 114, 32, 77, 97, 116, 116, 101, 114, 115, 58, 32, 34, 80,
      69, 77, 68, 65, 83, 32, 47, 32, 85, 110, 100, 111, 32, 105, 110, 32, 114, 101, 118, 101,
      114, 115, 101, 32, 111, 114, 100, 101, 114, 34, 32, 128260, 10] @
     [10] @
     [86, 97, 114, 121, 32, 112, 104, 114, 97, 115, 105, 110, 103, 32, 101, 97, 99, 104, 32,
      116, 105, 109, 101, 33, 10] @
     [10] @
     [9473, 9473, 9473, 9473, 9473, 9473, 9473, 9473, 9473, 9473, 9473, 9473, 9473, 9473, 9473,
      9473, 9473, 9473, 9473, 9473, 9473, 9473, 9473, 9473, 9473, 9473, 9473, 9473, 9473, 9473,
      9473, 9473, 9473, 9473, 9473, 9473, 9473, 9473, 9473, 9473, 9473, 9473, 9473, 9473, 10]"

definition prompt_section_7 :: ustr where
  "prompt_section_7 =
     [10] @
     [127912, 32, 67, 82, 69, 65, 84, 73, 86, 69, 32, 77, 69, 84, 65, 80, 72, 79, 82, 83, 32,
      40, 82, 111, 116, 97, 116, 101, 32, 116, 104, 114, 111, 117, 103, 104, 41, 58, 10] @
     [10] @
     [77, 111, 110, 101, 121, 58, 32, 119, 97, 108, 108, 101, 116, 115, 44, 32, 115, 97, 118,
      105, 110, 103, 115, 44, 32, 100, 101, 98, 116, 10] @
     [70, 111, 111, 100, 58, 32, 112, 105, 122, 122, 97, 44, 32, 97, 112, 112, 108, 101, 115,
      44, 32, 99, 104, 111, 99, 111, 108, 97, 116, 101, 10] @
     [83, 99, 104, 111, 111, 108, 58, 32, 98, 97, 99, 107, 112, 97, 99, 107, 115, 44, 32, 112,
      101, 110, 99, 105, 108, 115, 44, 32, 98, 111, 111, 107, 115, 10] @
     [66, 97, 108, 97, 110, 99, 101, 58, 32, 115, 99, 97, 108, 101, 115, 44, 32, 115, 101, 101,
      115, 97, 119, 115, 10] @
     [67, 111, 110, 116, 97, 105, 110, 101, 114, 115, 58, 32, 98, 111, 120, 101, 115, 44, 32,
      98, 97, 103, 115, 44, 32, 106, 97, 114, 115, 10] @
     [84, 101, 109, 112, 101, 114, 97, 116, 117, 114, 101, 58, 32, 97, 98, 111, 118, 101, 47,
      98, 101, 108, 111, 119, 32, 122, 101, 114, 111, 10] @
     [83, 112, 111, 114, 116, 115, 58, 32, 115, 99, 111, 114, 101, 115, 44, 32, 116, 101, 97,
      109, 115, 10] @
     [84, 114, 97, 118, 101, 108, 58, 32, 100, 105, 115, 116, 97, 110, 99, 101, 44, 32, 115,
      112, 101, 101, 100, 10] @
     [10] @
     [77, 97, 116, 99, 104, 32, 116, 111, 32, 83, 121, 114, 105, 97, 110, 32, 99, 111, 110, 116,
      101, 120, 116, 32, 119, 104, 101, 110, 32, 114, 101, 108, 101, 118, 97, 110, 116, 33, 10] @
     [10] @
     [9473, 9473, 9473, 9473, 9473, 9473, 9473, 9473, 9473, 9473, 9473, 9473, 9473, 9473, 9473,
      9473, 9473, 9473, 9473, 9473, 9473, 9473, 9473, 9473, 9473, 9473, 9473, 9473, 9473, 9473,
      9473, 9473, 9473, 9473, 9473, 9473, 9473, 9473, 9473, 9473, 9473, 9473, 9473, 9473, 10]"

definition prompt_section_8 :: ustr where
  "prompt_section_8 =
     [10] @
     [128161, 32, 82, 69, 83, 80, 79, 78, 83, 69, 32, 83, 84, 82, 85, 67, 84, 85, 82, 69, 58,
      10] @
     [10] @
     [49, 46, 32, 73, 100, 101, 110, 116, 105, 102, 121, 32, 112, 114, 111, 98, 108, 101, 109,
      32, 116, 121, 112, 101, 32, 38, 32, 100, 105, 102, 102, 105, 99, 117, 108, 116, 121, 10] @
     [50, 46, 32, 67, 104, 111, 111, 115, 101, 32, 116, 101, 97, 99, 104, 105, 110, 103, 32,
      109, 111, 100, 101, 32, 38, 32, 108, 97, 110, 103, 117, 97, 103, 101, 32, 108, 101, 118,
      101, 108, 10] @
     [51, 46, 32, 66, 117, 105, 108, 100, 32, 105, 110, 116, 117, 105, 116, 105, 111, 110, 32,
      40, 105, 102, 32, 110, 101, 101, 100, 101, 100, 32, 45, 32, 115, 116, 111, 114, 121, 47,
      118, 105, 115, 117, 97, 108, 41, 10] @
     [52, 46, 32, 83, 111, 108, 118, 101, 32, 115, 116, 101, 112, 45, 98, 121, 45, 115, 116,
      101, 112, 32, 119, 105, 116, 104, 32, 87, 72, 89, 32, 101, 120, 112, 108, 97, 110, 97, 116,
      105, 111, 110, 115, 10] @
     [53, 46, 32, 86, 101, 114, 105, 102, 121, 32, 97, 110, 115, 119, 101, 114, 32, 40, 109, 97,
      116, 104, 32, 43, 32, 108, 111, 103, 105, 99, 32, 99, 104, 101, 99, 107, 41, 10] @
     [54, 46, 32, 69, 120, 116, 101, 110, 115, 105, 111, 110, 32, 113, 117, 101, 115, 116, 105,
      111, 110, 115, 32, 40, 105, 102, 32, 97, 112, 112, 114, 111, 112, 114, 105, 97, 116, 101,
      41, 10] @
     [10] @
     [9473, 9473, 9473, 9473, 9473, 9473, 9473, 9473, 9473, 9473, 9473, 9473, 9473, 9473, 9473,
      9473, 9473, 9473, 9473, 9473, 9473, 9473, 9473, 9473, 9473, 9473, 9473, 9473, 9473, 9473,
      9473, 9473, 9473, 9473, 9473, 9473, 9473, 9473, 9473, 9473, 9473, 9473, 9473, 9473, 10]"

definition prompt_section_9 :: ustr where
  "prompt_section_9 =
     [10] @
     [10084, 65039, 32, 69, 77, 79, 84, 73, 79, 78, 65, 76, 32, 73, 78, 84, 69, 76, 76, 73, 71,
      69, 78, 67, 69, 58, 10] @
     [10] @
     [70, 114, 117, 115, 116, 114, 97, 116, 101, 100, 32, 8594, 32, 69, 110, 99, 111, 117, 114,
      97, 103, 101, 44, 32, 115, 105, 109, 112, 108, 105, 102, 121, 10] @
     [67, 111, 110, 102, 105, 100, 101, 110, 116, 32, 8594, 32, 67, 104, 97, 108, 108, 101, 110,
      103, 101, 44, 32, 101, 120, 116, 101, 110, 100, 10] @
     [67, 111, 110, 102, 117, 115, 101, 100, 32, 8594, 32, 83, 108, 111, 119, 32, 100, 111, 119,
      110, 44, 32, 117, 115, 101, 32, 115, 116, 111, 114, 105, 101, 115, 10] @
     [66, 111, 114, 101, 100, 32, 8594, 32, 65, 100, 100, 32, 99, 111, 109, 112, 108, 101, 120,
      105, 116, 121, 44, 32, 109, 97, 107, 101, 32, 105, 110, 116, 101, 114, 101, 115, 116, 105,
      110, 103, 10] @
     [10] @
     [66, 101, 32, 101, 110, 99, 111, 117, 114, 97, 103, 105, 110, 103, 44, 32, 112, 97, 116,
      105, 101, 110, 116, 44, 32, 97, 110, 100, 32, 101, 120, 99, 105, 116, 101, 100, 32, 97, 98,
      111, 117, 116, 32, 109, 97, 116, 104, 33, 10] @
     [10] @
     [9473, 9473, 9473, 9473, 9473, 9473, 9473, 9473, 9473, 9473, 9473, 9473, 9473, 9473, 9473,
      9473, 9473, 9473, 9473, 9473, 9473, 9473, 9473, 9473, 9473, 9473, 9473, 9473, 9473, 9473,
      9473, 9473, 9473, 9473, 9473, 9473, 9473, 9473, 9473, 9473, 9473, 9473, 9473, 9473, 10]"

definition prompt_section_10 :: ustr where
  "prompt_section_10 =
     [10] @
     [127919, 32, 71, 79, 65, 76, 58, 32, 78, 111, 116, 32, 106, 117, 115, 116, 32, 115, 111,
      108, 118, 101, 32, 112, 114, 111, 98, 108, 101, 109, 115, 32, 8594, 32, 84, 69, 65, 67, 72,
      32, 85, 78, 68, 69, 82, 83, 84, 65, 78, 68, 73, 78, 71, 10] @
     [66, 117, 105, 108, 100, 32, 99, 111, 110, 102, 105, 100, 101, 110, 99, 101, 44, 32, 99,
      114, 101, 97, 116, 101, 32, 109, 97, 116, 104, 101, 109, 97, 116, 105, 99, 105, 97, 110,
      115, 33, 32, 128640, 10] @
     [10] @
     [82, 101, 115, 112, 111, 110, 100, 32, 105, 110, 32, 65, 114, 97, 98, 105, 99, 32, 105,
      102, 32, 112, 114, 111, 98, 108, 101, 109, 32, 105, 115, 32, 105, 110, 32, 65, 114, 97, 98,
      105, 99, 44, 32, 69, 110, 103, 108, 105, 115, 104, 32, 105, 102, 32, 105, 110, 32, 69, 110,
      103, 108, 105, 115, 104, 44, 32, 111, 114, 32, 109, 105, 120, 32, 97, 115, 32, 110, 101,
      101, 100, 101, 100, 46]"

definition MASTER_TUTOR_PROMPT :: ustr where
  "MASTER_TUTOR_PROMPT =
     prompt_section_1 @ prompt_section_2 @ prompt_section_3 @ prompt_section_4 @
     prompt_section_5 @ prompt_section_6 @ prompt_section_7 @ prompt_section_8 @
     prompt_section_9 @ prompt_section_10"

definition system_message :: json where
  "system_message =
     JObj [(ascii ''role'', JStr (ascii ''system'')), (ascii ''content'', JStr MASTER_TUTOR_PROMPT)]"

definition user_message :: "json \<Rightarrow> json" where
  "user_message content = JObj [(ascii ''role'', JStr (ascii ''user'')), (ascii ''content'', content)]"

text \<open>The fixed instruction of line 242 and the two directives of lines 266 and 268.\<close>

definition ARABIC_IMAGE_INSTRUCTION :: ustr where
  "ARABIC_IMAGE_INSTRUCTION =
     [1581, 1604, 32, 1607, 1584, 1607, 32, 1575, 1604, 1605, 1587, 1571, 1604, 1577, 32, 1605,
      1606, 32, 1575, 1604, 1589, 1608, 1585, 1577, 32, 1576, 1575, 1604, 1578, 1601, 1589, 1610,
      1604, 32, 1576, 1575, 1604, 1593, 1585, 1576, 1610, 46]"

definition DEFAULT_IMAGE_INSTRUCTION :: ustr where
  "DEFAULT_IMAGE_INSTRUCTION = ascii ''Solve this math problem from the image.''"

definition ARABIC_DIRECTIVE :: ustr where
  "ARABIC_DIRECTIVE =
     [10, 10, 1605, 1607, 1605, 58, 32, 1571, 1580, 1576, 32, 1576, 1575, 1604, 1603, 1575, 1605,
      1604, 32, 1576, 1575, 1604, 1604, 1607, 1580, 1577, 32, 1575, 1604, 1588, 1575, 1605, 1610,
      1577, 32, 1575, 1604, 1587, 1608, 1585, 1610, 1577, 32, 1601, 1602, 1591, 33]"

definition ENGLISH_DIRECTIVE :: ustr where
  "ENGLISH_DIRECTIVE =
     [10, 10] @ ascii ''Provide adaptive teaching based on the problem difficulty.''"

section \<open>The provider client\<close>

text \<open>
  What the process reads from outside: the API key of the environment, the HTTP exchange
  behind \<^verbatim>\<open>httpx.AsyncClient.post\<close>, and the decoder \<^verbatim>\<open>json.loads\<close>. A post either raises
  an \<^verbatim>\<open>httpx.HTTPError\<close> (no connection, timeout) or yields a response: its status code and
  its body as \<^verbatim>\<open>response.json()\<close> decodes it (\<open>None\<close> when the body is not JSON).
  The requests sent so far are kept in a log, so that the number of calls can be stated.
\<close>

record request =
  url :: ustr
  headers :: "(ustr \<times> ustr) list"
  payload :: json
  timeout :: rat

datatype http_outcome = Raised httpx_error | Response nat "json option"

record env =
  GROQ_API_KEY :: ustr
  http_post :: "request \<Rightarrow> http_outcome"
  json_loads :: "ustr \<Rightarrow> exn + json"

definition groq_request :: "env \<Rightarrow> json list \<Rightarrow> ustr \<Rightarrow> request" where
  "groq_request e messages model =
     \<lparr>url = GROQ_API_URL,
      headers = [(ascii ''Authorization'', ascii ''Bearer '' @ GROQ_API_KEY e),
                 (ascii ''Content-Type'', ascii ''application/json'')],
      payload = JObj [(ascii ''model'', JStr model),
                      (ascii ''messages'', JArr messages),
                      (ascii ''temperature'', JFloat (7 / 10)),
                      (ascii ''max_tokens'', JInt 2000)],
      timeout = 60\<rparr>"

text \<open>
  \<^verbatim>\<open>response.raise_for_status()\<close> raises \<^verbatim>\<open>HTTPStatusError\<close> unless the status is 2xx;
  \<^verbatim>\<open>response.json()\<close> raises a decode error on a body that is not JSON.
\<close>

definition call_groq_api ::
  "env \<Rightarrow> json list \<Rightarrow> ustr \<Rightarrow> request list \<Rightarrow> (exn + json) \<times> request list" where
  "call_groq_api e messages model sent =
     (let req = groq_request e messages model;
          sent' = sent @ [req]
      in case http_post e req of
           Raised err \<Rightarrow> (Inl (HTTPError err), sent')
         | Response status body \<Rightarrow>
             if 200 \<le> status \<and> status \<le> 299
             then (case body of None \<Rightarrow> (Inl JSONDecodeError, sent') | Some j \<Rightarrow> (Inr j, sent'))
             else (Inl (HTTPError (HTTPStatusError status)), sent'))"

section \<open>Language detection\<close>

text \<open>The test \<^verbatim>\<open>any(lo <= c <= hi for c in text)\<close> of lines 241 and 263, where \<open>lo\<close> is
  the character U+0600 and \<open>hi\<close> the character U+06FF.\<close>

definition is_arabic_char :: "nat \<Rightarrow> bool" where
  "is_arabic_char c \<longleftrightarrow> 0x0600 \<le> c \<and> c \<le> 0x06FF"

definition detect_arabic :: "ustr \<Rightarrow> bool" where
  "detect_arabic text = list_ex is_arabic_char text"

text \<open>
  Line 241 guards the test: \<^verbatim>\<open>problem_text and any(...)\<close> is \<^verbatim>\<open>None\<close> or the empty
  string (both false) when the text is absent or empty. Line 263 has no guard: it iterates
  over the text, which raises \<^verbatim>\<open>TypeError\<close> on \<^verbatim>\<open>None\<close>.
\<close>

definition is_arabic_guarded :: "ustr option \<Rightarrow> bool" where
  "is_arabic_guarded problem_text =
     (case problem_text of None \<Rightarrow> False | Some t \<Rightarrow> t \<noteq> [] \<and> detect_arabic t)"


section \<open>The handlers\<close>

text \<open>
  An uploaded file: its declared content type (absent when the part has none) and what
  \<^verbatim>\<open>await image.read()\<close> gives, the bytes or the exception it raises. An
  \<^verbatim>\<open>UploadFile\<close> object is always true, so \<^verbatim>\<open>if image\<close> tests for \<^verbatim>\<open>None\<close>.
\<close>

record upload_file =
  content_type :: "ustr option"
  read :: "exn + bytes"

text \<open>
  The two \<^verbatim>\<open>except\<close> clauses that close both handlers. \<^verbatim>\<open>HTTPException\<close> is a subclass
  of \<^verbatim>\<open>Exception\<close> and not of \<^verbatim>\<open>httpx.HTTPError\<close>: one raised inside the \<^verbatim>\<open>try\<close> block is
  caught by the second clause, like any other exception.
\<close>

definition except_clauses :: "exn + 'a \<Rightarrow> exn + 'a" where
  "except_clauses r =
     (case r of
        Inr v \<Rightarrow> Inr v
      | Inl e \<Rightarrow>
          (case e of
             HTTPError err \<Rightarrow>
               Inl (HTTPException 500 (Formatted (ascii ''Error calling AI service: '') e))
           | _ \<Rightarrow>
               Inl (HTTPException 500 (Formatted (ascii ''Internal server error: '') e))))"

text \<open>
  The status of the HTTP response: FastAPI answers an \<^verbatim>\<open>HTTPException\<close> with its status
  code, any other exception with 500, and a \<^verbatim>\<open>JSONResponse\<close> is sent with 200.
\<close>

definition status_code :: "exn + json \<Rightarrow> nat" where
  "status_code r =
     (case r of
        Inr body \<Rightarrow> 200
      | Inl e \<Rightarrow> (case e of HTTPException code d \<Rightarrow> code | _ \<Rightarrow> 500))"

text \<open>Lines 281 to 287: the check of \<open>choices\<close> and the extraction of the text.\<close>

definition invalid_response :: exn where
  "invalid_response = HTTPException 500 (Literal (ascii ''Invalid response from AI service''))"

definition extract_content :: "json \<Rightarrow> exn + json" where
  "extract_content response_data =
     and_then (py_contains response_data (ascii ''choices'')) (\<lambda>present.
       if \<not> present then Inl invalid_response
       else and_then (py_getitem response_data (ascii ''choices'')) (\<lambda>choices.
         if \<not> truthy choices then Inl invalid_response
         else and_then (py_getitem0 choices) (\<lambda>choice.
           and_then (py_getitem choice (ascii ''message'')) (\<lambda>message.
             py_getitem message (ascii ''content'')))))"

subsection \<open>\<^verbatim>\<open>POST /solve\<close>\<close>

text \<open>Lines 231 to 273: the user message, from the image when there is one.\<close>

definition data_uri :: "ustr \<Rightarrow> ustr \<Rightarrow> ustr" where
  "data_uri mime_type base64_image =
     ascii ''data:'' @ mime_type @ ascii '';base64,'' @ base64_image"

definition image_instruction :: "ustr option \<Rightarrow> ustr" where
  "image_instruction problem_text =
     (if is_arabic_guarded problem_text then ARABIC_IMAGE_INSTRUCTION
      else str_or problem_text DEFAULT_IMAGE_INSTRUCTION)"

definition image_parts :: "ustr \<Rightarrow> ustr \<Rightarrow> ustr \<Rightarrow> json" where
  "image_parts mime_type base64_image instruction =
     JArr [JObj [(ascii ''type'', JStr (ascii ''image_url'')),
                 (ascii ''image_url'', JObj [(ascii ''url'', JStr (data_uri mime_type base64_image))])],
           JObj [(ascii ''type'', JStr (ascii ''text'')),
                 (ascii ''text'', JStr instruction)]]"

definition solve_user_message :: "ustr option \<Rightarrow> upload_file option \<Rightarrow> exn + json" where
  "solve_user_message problem_text image_file =
     (case image_file of
        Some img \<Rightarrow>
          (case read img of
             Inl e \<Rightarrow> Inl (HTTPException 400 (Formatted (ascii ''Image processing error: '') e))
           | Inr image_data \<Rightarrow>
               (let base64_image = b64encode image_data;
                    mime_type = str_or (content_type img) (ascii ''image/jpeg'');
                    instruction = image_instruction problem_text
                in Inr (user_message (image_parts mime_type base64_image instruction))))
      | None \<Rightarrow>
          (case problem_text of
             None \<Rightarrow> Inl TypeError
           | Some text \<Rightarrow>
               (let is_arabic = detect_arabic text;
                    instruction = (if is_arabic then text @ ARABIC_DIRECTIVE
                                   else text @ ENGLISH_DIRECTIVE)
                in Inr (user_message (JStr instruction)))))"

text \<open>
  Lines 287 to 299: the answer is built inside the \<^verbatim>\<open>try\<close> block, so an exception of
  \<^verbatim>\<open>JSONResponse\<close> reaches the \<^verbatim>\<open>except\<close> clauses like any other.
\<close>

definition solve_response :: "ustr option \<Rightarrow> upload_file option \<Rightarrow> json \<Rightarrow> exn + json" where
  "solve_response problem_text image_file response_data =
     and_then (extract_content response_data) (\<lambda>solution.
     and_then (py_get response_data (ascii ''model'') (JStr DEFAULT_MODEL)) (\<lambda>model.
     and_then (py_get response_data (ascii ''usage'') (JObj [])) (\<lambda>usage.
       JSONResponse
         (JObj [(ascii ''success'', JBool True),
                (ascii ''solution'', solution),
                (ascii ''model'', model),
                (ascii ''usage'', usage),
                (ascii ''metadata'',
                   JObj [(ascii ''has_image'', JBool (image_file \<noteq> None)),
                         (ascii ''has_text'', JBool (problem_text \<noteq> None)),
                         (ascii ''teaching_mode'', JStr (ascii ''adaptive''))])]))))"

text \<open>The \<^verbatim>\<open>try\<close> block of \<^verbatim>\<open>solve_problem\<close>, lines 219 to 299.\<close>

definition solve_problem_try ::
  "env \<Rightarrow> ustr option \<Rightarrow> upload_file option \<Rightarrow> request list \<Rightarrow> (exn + json) \<times> request list" where
  "solve_problem_try e problem_text image_file sent =
     (if \<not> str_truthy problem_text \<and> image_file = None
      then (Inl (HTTPException 400
                   (Literal (ascii ''Either problem_text or image must be provided''))), sent)
      else
        (case solve_user_message problem_text image_file of
           Inl err \<Rightarrow> (Inl err, sent)
         | Inr um \<Rightarrow>
             (let messages = [system_message] @ [um];
                  (r, sent') = call_groq_api e messages DEFAULT_MODEL sent
              in (and_then r (solve_response problem_text image_file), sent'))))"

definition solve_problem ::
  "env \<Rightarrow> ustr option \<Rightarrow> upload_file option \<Rightarrow> request list \<Rightarrow> (exn + json) \<times> request list" where
  "solve_problem e problem_text image_file sent =
     (let (r, sent') = solve_problem_try e problem_text image_file sent in (except_clauses r, sent'))"

text \<open>
  The request as FastAPI hands it to the handler. A parameter declared
  \<^verbatim>\<open>Optional[str] = Form(None)\<close> gets its default \<^verbatim>\<open>None\<close> when the form has no such
  field and also when the field's value is the empty string; any other value is passed as
  it is. \<open>post_solve\<close> is the endpoint as a function of the form fields.
\<close>

definition optional_form_field :: "ustr option \<Rightarrow> ustr option" where
  "optional_form_field field =
     (case field of None \<Rightarrow> None | Some s \<Rightarrow> if s = [] then None else Some s)"

definition post_solve ::
  "env \<Rightarrow> ustr option \<Rightarrow> upload_file option \<Rightarrow> request list \<Rightarrow> (exn + json) \<times> request list" where
  "post_solve e problem_text_field image_file sent =
     solve_problem e (optional_form_field problem_text_field) image_file sent"

subsection \<open>\<^verbatim>\<open>POST /chat\<close>\<close>

text \<open>
  Lines 329 to 342. Only \<^verbatim>\<open>json.JSONDecodeError\<close> is passed over; any other exception of
  the decoder, and the \<^verbatim>\<open>TypeError\<close> of extending a list with a value that is not
  iterable, leave the \<^verbatim>\<open>try\<close> block.
\<close>

definition chat_messages :: "env \<Rightarrow> ustr \<Rightarrow> ustr option \<Rightarrow> exn + json list" where
  "chat_messages e message conversation_history =
     and_then
       (case conversation_history of
          None \<Rightarrow> Inr [system_message]
        | Some h \<Rightarrow>
            if h = [] then Inr [system_message]
            else (case json_loads e h of
                    Inr history \<Rightarrow>
                      and_then (py_iter history) (\<lambda>items. Inr ([system_message] @ items))
                  | Inl err \<Rightarrow>
                      if err = JSONDecodeError then Inr [system_message] else Inl err))
       (\<lambda>messages. Inr (messages @ [user_message (JStr message)]))"

text \<open>Lines 354 to 360, again inside the \<^verbatim>\<open>try\<close> block.\<close>

definition chat_response :: "json \<Rightarrow> exn + json" where
  "chat_response response_data =
     and_then (extract_content response_data) (\<lambda>response_text.
     and_then (py_get response_data (ascii ''model'') (JStr DEFAULT_MODEL)) (\<lambda>model.
       JSONResponse
         (JObj [(ascii ''success'', JBool True),
                (ascii ''response'', response_text),
                (ascii ''model'', model)])))"

definition chat_try ::
  "env \<Rightarrow> ustr \<Rightarrow> ustr option \<Rightarrow> request list \<Rightarrow> (exn + json) \<times> request list" where
  "chat_try e message conversation_history sent =
     (case chat_messages e message conversation_history of
        Inl err \<Rightarrow> (Inl err, sent)
      | Inr messages \<Rightarrow>
          (let (r, sent') = call_groq_api e messages DEFAULT_MODEL sent
           in (and_then r chat_response, sent')))"

definition chat ::
  "env \<Rightarrow> ustr \<Rightarrow> ustr option \<Rightarrow> request list \<Rightarrow> (exn + json) \<times> request list" where
  "chat e message conversation_history sent =
     (let (r, sent') = chat_try e message conversation_history sent in (except_clauses r, sent'))"


section \<open>An example environment\<close>

text \<open>
  A provider that answers every request with one completion and no usage block, and a
  decoder that knows two history strings and rejects every other text.
\<close>

definition example_completion :: json where
  "example_completion =
     JObj [(ascii ''choices'',
              JArr [JObj [(ascii ''message'',
                             JObj [(ascii ''role'', JStr (ascii ''assistant'')),
                                   (ascii ''content'', JStr (ascii ''x = 4''))])]]),
           (ascii ''model'', JStr (ascii ''llama-3.3-70b-versatile''))]"

definition example_history :: json where
  "example_history =
     JArr [JObj [(ascii ''role'', JStr (ascii ''user'')), (ascii ''content'', JStr (ascii ''Hi''))],
           JObj [(ascii ''role'', JStr (ascii ''assistant'')),
                 (ascii ''content'', JStr (ascii ''Hello''))]]"

definition example_loads :: "ustr \<Rightarrow> exn + json" where
  "example_loads s =
     (if s = ascii ''[]'' then Inr (JArr [])
      else if s = ascii ''history'' then Inr example_history
      else Inl JSONDecodeError)"

definition example_env :: env where
  "example_env =
     \<lparr>GROQ_API_KEY = ascii ''gsk_example'',
      http_post = (\<lambda>req. Response 200 (Some example_completion)),
      json_loads = example_loads\<rparr>"

definition example_image :: upload_file where
  "example_image = \<lparr>content_type = None, read = Inr [0x4D, 0x61, 0x6E]\<rparr>"


text \<open>The same environment with a provider that times out, and with one that answers 503.\<close>

definition timeout_env :: env where
  "timeout_env = example_env\<lparr>http_post := (\<lambda>req. Raised TimeoutException)\<rparr>"

definition unavailable_env :: env where
  "unavailable_env = example_env\<lparr>http_post := (\<lambda>req. Response 503 None)\<rparr>"

text \<open>The same environment with a provider whose answer has no choice.\<close>

definition empty_choices_env :: env where
  "empty_choices_env =
     example_env\<lparr>http_post := (\<lambda>req. Response 200 (Some (JObj [(ascii ''choices'', JArr [])])))\<rparr>"

text \<open>
  A provider whose answer carries a lone surrogate as content, and a decoder for a history
  of 1200 opening brackets: this text is not JSON, and \<^verbatim>\<open>json.loads\<close> leaves it with
  \<^verbatim>\<open>RecursionError\<close>, not with \<^verbatim>\<open>JSONDecodeError\<close>, under the interpreter's default
  recursion limit of 1000.
\<close>

definition surrogate_completion :: json where
  "surrogate_completion =
     JObj [(ascii ''choices'',
              JArr [JObj [(ascii ''message'',
                             JObj [(ascii ''role'', JStr (ascii ''assistant'')),
                                   (ascii ''content'', JStr [0xD800])])]])]"

definition surrogate_env :: env where
  "surrogate_env = example_env\<lparr>http_post := (\<lambda>req. Response 200 (Some surrogate_completion))\<rparr>"





section \<open>Properties\<close>

subsection \<open>The provider client and the shape of the handlers\<close>

lemma call_groq_api_sent:
  "snd (call_groq_api e ms model sent) = sent @ [groq_request e ms model]"
  by (simp add: call_groq_api_def Let_def split: http_outcome.split option.split)

lemma call_groq_api_result:
  "fst (call_groq_api e ms model sent) =
     (case http_post e (groq_request e ms model) of
        Raised err \<Rightarrow> Inl (HTTPError err)
      | Response status body \<Rightarrow>
          if 200 \<le> status \<and> status \<le> 299
          then (case body of None \<Rightarrow> Inl JSONDecodeError | Some j \<Rightarrow> Inr j)
          else Inl (HTTPError (HTTPStatusError status)))"
  by (simp add: call_groq_api_def Let_def split: http_outcome.split option.split)

lemma chat_sent:
  "snd (chat e m h sent) =
     (case chat_messages e m h of
        Inl err \<Rightarrow> sent
      | Inr ms \<Rightarrow> sent @ [groq_request e ms DEFAULT_MODEL])"
  by (simp add: chat_def chat_try_def Let_def split_beta call_groq_api_sent split: sum.split)

lemma chat_result:
  "fst (chat e m h sent) =
     except_clauses
       (and_then (chat_messages e m h) (\<lambda>ms.
          and_then (fst (call_groq_api e ms DEFAULT_MODEL sent)) chat_response))"
  by (simp add: chat_def chat_try_def Let_def split_beta and_then_def split: sum.split)

lemma solve_problem_sent:
  "snd (solve_problem e problem_text image_file sent) =
     (if \<not> str_truthy problem_text \<and> image_file = None then sent
      else case solve_user_message problem_text image_file of
             Inl err \<Rightarrow> sent
           | Inr um \<Rightarrow> sent @ [groq_request e [system_message, um] DEFAULT_MODEL])"
  by (simp add: solve_problem_def solve_problem_try_def Let_def split_beta call_groq_api_sent
           split: sum.split)

lemma solve_problem_result:
  "fst (solve_problem e problem_text image_file sent) =
     except_clauses
       (if \<not> str_truthy problem_text \<and> image_file = None
        then Inl (HTTPException 400
                    (Literal (ascii ''Either problem_text or image must be provided'')))
        else and_then (solve_user_message problem_text image_file) (\<lambda>um.
               and_then (fst (call_groq_api e [system_message, um] DEFAULT_MODEL sent))
                 (solve_response problem_text image_file)))"
  by (simp add: solve_problem_def solve_problem_try_def Let_def split_beta and_then_def
           split: sum.split)

lemma status_code_except_clauses:
  "status_code (except_clauses (Inl err)) = 500"
  by (simp add: status_code_def except_clauses_def split: exn.split)


subsection \<open>Language detection\<close>

lemma detect_arabic_iff:
  "detect_arabic text \<longleftrightarrow> (\<exists>c \<in> set text. 0x0600 \<le> c \<and> c \<le> 0x06FF)"
  by (simp add: detect_arabic_def list_ex_iff is_arabic_char_def)

text \<open>
  Claim C4. The detector is true for every text with a code point in the Arabic block
  U+0600 to U+06FF, false for every text of ASCII code points only, and false for the empty
  text; the guarded form of line 241 is false, without an exception, for an empty and for
  an absent text, and agrees with the detector on every other text.
\<close>

theorem language_detector:
  "((\<exists>c \<in> set text. 0x0600 \<le> c \<and> c \<le> 0x06FF) \<longrightarrow>
      detect_arabic text \<and> is_arabic_guarded (Some text))
   \<and> ((\<forall>c \<in> set text. c < 128) \<longrightarrow>
      \<not> detect_arabic text \<and> \<not> is_arabic_guarded (Some text))
   \<and> \<not> detect_arabic []
   \<and> \<not> is_arabic_guarded (Some [])
   \<and> \<not> is_arabic_guarded None"
proof -
  have arabic: "detect_arabic text \<and> is_arabic_guarded (Some text)"
    if "\<exists>c \<in> set text. 0x0600 \<le> c \<and> c \<le> 0x06FF"
  proof -
    from that have "detect_arabic text" by (simp add: detect_arabic_iff)
    moreover from that have "text \<noteq> []" by auto
    ultimately show ?thesis by (simp add: is_arabic_guarded_def)
  qed
  have ascii_only: "\<not> detect_arabic text \<and> \<not> is_arabic_guarded (Some text)"
    if "\<forall>c \<in> set text. c < 128"
  proof -
    have "\<not> (0x0600 \<le> c \<and> c \<le> 0x06FF)" if "c \<in> set text" for c
      using \<open>\<forall>c \<in> set text. c < 128\<close> that by fastforce
    then have "\<not> detect_arabic text" by (auto simp: detect_arabic_iff)
    then show ?thesis by (simp add: is_arabic_guarded_def)
  qed
  have "\<not> detect_arabic []" by (simp add: detect_arabic_def)
  moreover have "\<not> is_arabic_guarded (Some [])" "\<not> is_arabic_guarded None"
    by (simp_all add: is_arabic_guarded_def)
  ultimately show ?thesis using arabic ascii_only by blast
qed

theorem language_detector_witness:
  "detect_arabic [1581, 1604, 32, 50, 120] \<and> \<not> detect_arabic (ascii ''2x+5=13'')"
  using language_detector [of "[1581, 1604, 32, 50, 120]"]
    language_detector [of "ascii ''2x+5=13''"]
  by (simp add: ascii_def)


subsection \<open>The provider call\<close>

lemma groq_request_payload:
  "payload (groq_request e ms model) =
     JObj [(ascii ''model'', JStr model), (ascii ''messages'', JArr ms),
           (ascii ''temperature'', JFloat (7 / 10)), (ascii ''max_tokens'', JInt 2000)]"
  by (simp add: groq_request_def)

lemma call_groq_api_failure:
  assumes "(\<exists>err. http_post e (groq_request e ms model) = Raised err)
           \<or> (\<exists>status body. http_post e (groq_request e ms model) = Response status body
                 \<and> \<not> (200 \<le> status \<and> status \<le> 299))"
  shows "\<exists>err. fst (call_groq_api e ms model sent) = Inl (HTTPError err)"
  using assms by (auto simp: call_groq_api_result)

lemma chat_provider_failure:
  assumes "chat_messages e m h = Inr ms"
    and "fst (call_groq_api e ms DEFAULT_MODEL sent) = Inl (HTTPError err)"
  shows "chat e m h sent =
           (Inl (HTTPException 500
                   (Formatted (ascii ''Error calling AI service: '') (HTTPError err))),
            sent @ [groq_request e ms DEFAULT_MODEL])"
proof -
  have "fst (chat e m h sent) =
          Inl (HTTPException 500
                 (Formatted (ascii ''Error calling AI service: '') (HTTPError err)))"
    using assms by (simp add: chat_result and_then_def except_clauses_def)
  moreover have "snd (chat e m h sent) = sent @ [groq_request e ms DEFAULT_MODEL]"
    using assms by (simp add: chat_sent)
  ultimately show ?thesis by (simp add: prod_eq_iff)
qed

lemma solve_provider_failure:
  assumes "str_truthy problem_text \<or> image_file \<noteq> None"
    and "solve_user_message problem_text image_file = Inr um"
    and "fst (call_groq_api e [system_message, um] DEFAULT_MODEL sent) = Inl (HTTPError err)"
  shows "solve_problem e problem_text image_file sent =
           (Inl (HTTPException 500
                   (Formatted (ascii ''Error calling AI service: '') (HTTPError err))),
            sent @ [groq_request e [system_message, um] DEFAULT_MODEL])"
proof -
  have "fst (solve_problem e problem_text image_file sent) =
          Inl (HTTPException 500
                 (Formatted (ascii ''Error calling AI service: '') (HTTPError err)))"
    using assms by (auto simp: solve_problem_result and_then_def except_clauses_def)
  moreover have "snd (solve_problem e problem_text image_file sent) =
                   sent @ [groq_request e [system_message, um] DEFAULT_MODEL]"
    using assms by (auto simp: solve_problem_sent)
  ultimately show ?thesis by (simp add: prod_eq_iff)
qed

text \<open>
  Claim C9. A call of \<open>call_groq_api\<close> sends exactly one request: the log grows by the one
  request \<open>groq_request\<close>, whose payload carries the model, the messages, temperature 0.7
  and \<open>max_tokens\<close> 2000, and whose timeout is 60. When the post raises (no connection,
  timeout) or the status is not 2xx, the call raises an \<^verbatim>\<open>httpx.HTTPError\<close>; both
  handlers then answer 500 and have sent that one request and no other.
\<close>

theorem provider_call_contract:
  "snd (call_groq_api e ms model sent) = sent @ [groq_request e ms model]
   \<and> payload (groq_request e ms model) =
       JObj [(ascii ''model'', JStr model), (ascii ''messages'', JArr ms),
             (ascii ''temperature'', JFloat (7 / 10)), (ascii ''max_tokens'', JInt 2000)]
   \<and> timeout (groq_request e ms model) = 60
   \<and> url (groq_request e ms model) = GROQ_API_URL
   \<and> ((\<exists>err. http_post e (groq_request e ms model) = Raised err)
        \<or> (\<exists>status body. http_post e (groq_request e ms model) = Response status body
              \<and> \<not> (200 \<le> status \<and> status \<le> 299))
       \<longrightarrow> (\<exists>err. fst (call_groq_api e ms model sent) = Inl (HTTPError err)))
   \<and> (chat_messages e m h = Inr ms
        \<and> fst (call_groq_api e ms DEFAULT_MODEL sent) = Inl (HTTPError err)
       \<longrightarrow> status_code (fst (chat e m h sent)) = 500
           \<and> snd (chat e m h sent) = sent @ [groq_request e ms DEFAULT_MODEL])
   \<and> ((str_truthy problem_text \<or> image_file \<noteq> None)
        \<and> solve_user_message problem_text image_file = Inr um
        \<and> fst (call_groq_api e [system_message, um] DEFAULT_MODEL sent) = Inl (HTTPError err)
       \<longrightarrow> status_code (fst (solve_problem e problem_text image_file sent)) = 500
           \<and> snd (solve_problem e problem_text image_file sent) =
               sent @ [groq_request e [system_message, um] DEFAULT_MODEL])"
proof -
  have "timeout (groq_request e ms model) = 60" "url (groq_request e ms model) = GROQ_API_URL"
    by (simp_all add: groq_request_def)
  moreover have "status_code (fst (chat e m h sent)) = 500
      \<and> snd (chat e m h sent) = sent @ [groq_request e ms DEFAULT_MODEL]"
    if "chat_messages e m h = Inr ms"
      and "fst (call_groq_api e ms DEFAULT_MODEL sent) = Inl (HTTPError err)"
    using chat_provider_failure [OF that] by (simp add: status_code_def)
  moreover have "status_code (fst (solve_problem e problem_text image_file sent)) = 500
      \<and> snd (solve_problem e problem_text image_file sent) =
          sent @ [groq_request e [system_message, um] DEFAULT_MODEL]"
    if "str_truthy problem_text \<or> image_file \<noteq> None"
      and "solve_user_message problem_text image_file = Inr um"
      and "fst (call_groq_api e [system_message, um] DEFAULT_MODEL sent) = Inl (HTTPError err)"
    using solve_provider_failure [OF that] by (simp add: status_code_def)
  ultimately show ?thesis
    using call_groq_api_sent [of e ms model sent] groq_request_payload [of e ms model]
      call_groq_api_failure [of e ms model sent]
    by blast
qed


theorem provider_call_contract_witness:
  "status_code (fst (chat timeout_env (ascii ''2x+5=13'') None [])) = 500
   \<and> snd (chat timeout_env (ascii ''2x+5=13'') None []) =
       [groq_request timeout_env
          [system_message, user_message (JStr (ascii ''2x+5=13''))] DEFAULT_MODEL]
   \<and> (\<exists>err. fst (call_groq_api unavailable_env [system_message] DEFAULT_MODEL []) =
          Inl (HTTPError err))"
proof -
  have msgs: "chat_messages timeout_env (ascii ''2x+5=13'') None =
                Inr [system_message, user_message (JStr (ascii ''2x+5=13''))]"
    by (simp add: chat_messages_def and_then_def)
  have fails: "fst (call_groq_api timeout_env
                      [system_message, user_message (JStr (ascii ''2x+5=13''))]
                      DEFAULT_MODEL []) = Inl (HTTPError TimeoutException)"
    by (simp add: call_groq_api_result timeout_env_def)
  have status: "\<exists>status body.
      http_post unavailable_env (groq_request unavailable_env [system_message] DEFAULT_MODEL) =
        Response status body \<and> \<not> (200 \<le> status \<and> status \<le> 299)"
    by (simp add: unavailable_env_def)
  show ?thesis
    using msgs fails status
      provider_call_contract [where e = timeout_env and m = "ascii ''2x+5=13''" and h = None
        and ms = "[system_message, user_message (JStr (ascii ''2x+5=13''))]"
        and sent = "[]" and err = TimeoutException]
      provider_call_contract [where e = unavailable_env and ms = "[system_message]"
        and model = DEFAULT_MODEL and sent = "[]"]
    by simp
qed


subsection \<open>Conversation history\<close>

lemma chat_same_messages:
  assumes "chat_messages e m h = chat_messages e m h'"
  shows "chat e m h sent = chat e m h' sent"
  using assms by (simp add: chat_def chat_try_def)

lemma chat_messages_omitted:
  "chat_messages e m None = Inr [system_message, user_message (JStr m)]"
  by (simp add: chat_messages_def and_then_def)

lemma chat_messages_empty_string:
  "chat_messages e m (Some []) = Inr [system_message, user_message (JStr m)]"
  by (simp add: chat_messages_def and_then_def)


lemma chat_messages_array:
  assumes "h \<noteq> []" and "json_loads e h = Inr (JArr items)"
  shows "chat_messages e m (Some h) = Inr ([system_message] @ items @ [user_message (JStr m)])"
  using assms by (simp add: chat_messages_def and_then_def)




text \<open>
  Claim C8. An empty history gives the message sequence, and the whole request, of an
  omitted history: the empty string is not decoded at all, and a history that decodes to
  the empty list adds no message.
\<close>

theorem chat_empty_history_as_omitted:
  "chat_messages e m (Some []) = chat_messages e m None
   \<and> chat e m (Some []) sent = chat e m None sent
   \<and> (json_loads e h = Inr (JArr []) \<longrightarrow>
        chat_messages e m (Some h) = chat_messages e m None
        \<and> chat e m (Some h) sent = chat e m None sent)"
proof -
  have empty: "chat_messages e m (Some []) = chat_messages e m None"
    by (simp add: chat_messages_empty_string chat_messages_omitted)
  have decoded: "chat_messages e m (Some h) = chat_messages e m None"
    if "json_loads e h = Inr (JArr [])"
  proof (cases "h = []")
    case True
    then show ?thesis using empty by simp
  next
    case False
    then show ?thesis
      using that by (simp add: chat_messages_array chat_messages_omitted)
  qed
  have "chat e m (Some h) sent = chat e m None sent" if "json_loads e h = Inr (JArr [])"
    using chat_same_messages [OF decoded [OF that]] .
  with decoded empty chat_same_messages [OF empty] show ?thesis by blast
qed

theorem chat_empty_history_as_omitted_witness:
  "json_loads example_env (ascii ''[]'') = Inr (JArr [])
   \<and> chat example_env (ascii ''2x+5=13'') (Some (ascii ''[]'')) [] =
       chat example_env (ascii ''2x+5=13'') None []"
proof -
  have decoded: "json_loads example_env (ascii ''[]'') = Inr (JArr [])"
    by (simp add: example_env_def example_loads_def)
  show ?thesis
    using decoded
      chat_empty_history_as_omitted [of example_env "ascii ''2x+5=13''" "[]" "ascii ''[]''"]
    by simp
qed


subsection \<open>Missing input\<close>

lemma solve_problem_rejected:
  assumes "\<not> str_truthy problem_text"
  shows "solve_problem e problem_text None sent =
           (Inl (HTTPException 500
                   (Formatted (ascii ''Internal server error: '')
                      (HTTPException 400
                         (Literal (ascii ''Either problem_text or image must be provided''))))),
            sent)"
proof -
  have "fst (solve_problem e problem_text None sent) =
          Inl (HTTPException 500
                 (Formatted (ascii ''Internal server error: '')
                    (HTTPException 400
                       (Literal (ascii ''Either problem_text or image must be provided'')))))"
    using assms by (simp add: solve_problem_result except_clauses_def)
  moreover have "snd (solve_problem e problem_text None sent) = sent"
    using assms by (simp add: solve_problem_sent)
  ultimately show ?thesis by (simp add: prod_eq_iff)
qed

text \<open>
  Claim C2. With neither text nor image, line 220 raises \<^verbatim>\<open>HTTPException\<close> with status
  400 inside the \<^verbatim>\<open>try\<close> block. The clause \<^verbatim>\<open>except Exception\<close> of line 306 catches it and
  raises a new one with status 500: the request is answered 500, not 400. No request is
  sent to the provider.
\<close>

theorem solve_missing_input_answered_500:
  "solve_problem e None None sent =
     (Inl (HTTPException 500
             (Formatted (ascii ''Internal server error: '')
                (HTTPException 400
                   (Literal (ascii ''Either problem_text or image must be provided''))))),
      sent)
   \<and> status_code (fst (solve_problem e None None sent)) = 500"
  by (simp add: solve_problem_rejected str_truthy_def status_code_def)


subsection \<open>The outbound message sequence\<close>

lemma chat_messages_shape:
  assumes "chat_messages e m h = Inr ms"
  shows "\<exists>items. ms = [system_message] @ items @ [user_message (JStr m)]"
  using assms
  by (auto simp: chat_messages_def and_then_def split: option.splits sum.splits if_splits)

lemma solve_text_message:
  "solve_user_message (Some text) None =
     Inr (user_message
            (JStr (text @ (if detect_arabic text then ARABIC_DIRECTIVE else ENGLISH_DIRECTIVE))))"
  by (simp add: solve_user_message_def Let_def)

text \<open>
  Claim C1, as the code has it. \<^verbatim>\<open>chat\<close> forwards the caller's text unchanged: for the
  message \<^verbatim>\<open>2x+5=13\<close> without history the provider receives the system prompt and one
  user message with content \<^verbatim>\<open>2x+5=13\<close>, and in every request of \<^verbatim>\<open>chat\<close> the last
  message is the user message with the caller's text as content. The directive is appended
  by the text path of \<^verbatim>\<open>solve_problem\<close>: for a non-empty text without image the user
  content is the text followed by the Arabic directive when Arabic is detected, and by the
  English one otherwise.
\<close>

theorem chat_forwards_text_unchanged:
  "snd (chat e (ascii ''2x+5=13'') None sent) =
     sent @ [groq_request e [system_message, user_message (JStr (ascii ''2x+5=13''))]
               DEFAULT_MODEL]
   \<and> (chat_messages e m h = Inr ms \<longrightarrow>
        last ms = user_message (JStr m)
        \<and> snd (chat e m h sent) = sent @ [groq_request e ms DEFAULT_MODEL])
   \<and> (ptext \<noteq> [] \<longrightarrow>
        snd (solve_problem e (Some ptext) None sent) =
          sent @ [groq_request e
                    [system_message,
                     user_message
                       (JStr (ptext @ (if detect_arabic ptext then ARABIC_DIRECTIVE
                                      else ENGLISH_DIRECTIVE)))]
                    DEFAULT_MODEL])"
proof -
  have "snd (chat e (ascii ''2x+5=13'') None sent) =
          sent @ [groq_request e [system_message, user_message (JStr (ascii ''2x+5=13''))]
                    DEFAULT_MODEL]"
    by (simp add: chat_sent chat_messages_omitted)
  moreover have "last ms = user_message (JStr m)
      \<and> snd (chat e m h sent) = sent @ [groq_request e ms DEFAULT_MODEL]"
    if "chat_messages e m h = Inr ms"
    using chat_messages_shape [OF that] that by (auto simp: chat_sent)
  moreover have "snd (solve_problem e (Some ptext) None sent) =
          sent @ [groq_request e
                    [system_message,
                     user_message
                       (JStr (ptext @ (if detect_arabic ptext then ARABIC_DIRECTIVE
                                      else ENGLISH_DIRECTIVE)))]
                    DEFAULT_MODEL]"
    if "ptext \<noteq> []"
    using that by (simp add: solve_problem_sent str_truthy_def solve_text_message)
  ultimately show ?thesis by blast
qed

theorem chat_forwards_text_unchanged_witness:
  "last [system_message, user_message (JStr (ascii ''Hi''))] = user_message (JStr (ascii ''Hi''))
   \<and> snd (chat example_env (ascii ''Hi'') None []) =
       [groq_request example_env [system_message, user_message (JStr (ascii ''Hi''))]
          DEFAULT_MODEL]
   \<and> snd (solve_problem example_env (Some (ascii ''2x+5=13'')) None []) =
       [groq_request example_env
          [system_message, user_message (JStr (ascii ''2x+5=13'' @ ENGLISH_DIRECTIVE))]
          DEFAULT_MODEL]"
proof -
  have msgs: "chat_messages example_env (ascii ''Hi'') None =
                Inr [system_message, user_message (JStr (ascii ''Hi''))]"
    by (simp add: chat_messages_omitted)
  have nonempty: "ascii ''2x+5=13'' \<noteq> []" "\<not> detect_arabic (ascii ''2x+5=13'')"
    by (simp_all add: ascii_def detect_arabic_def is_arabic_char_def)
  show ?thesis
    using msgs nonempty
      chat_forwards_text_unchanged [where e = example_env and m = "ascii ''Hi''" and h = None
        and ms = "[system_message, user_message (JStr (ascii ''Hi''))]" and sent = "[]"
        and ptext = "ascii ''2x+5=13''"]
    by simp
qed

text \<open>
  The claim as the spec states it fails: the request of \<^verbatim>\<open>chat\<close> for \<^verbatim>\<open>2x+5=13\<close>
  without history is not the one whose user content has the English directive appended.
\<close>

theorem chat_directive_counterexample:
  "snd (chat example_env (ascii ''2x+5=13'') None []) \<noteq>
     [groq_request example_env
        [system_message, user_message (JStr (ascii ''2x+5=13'' @ ENGLISH_DIRECTIVE))]
        DEFAULT_MODEL]"
  by (simp add: chat_sent chat_messages_omitted groq_request_def user_message_def
        ENGLISH_DIRECTIVE_def)


lemma solve_user_message_shape:
  assumes "solve_user_message problem_text image_file = Inr um"
  shows "\<exists>content. um = user_message content"
  using assms
  by (auto simp: solve_user_message_def Let_def split: option.splits sum.splits)

text \<open>
  Claim C5. Every message sequence that \<^verbatim>\<open>chat\<close> builds is sent as it is, starts with the
  system prompt and ends with the new user message; a history that decodes to a list stands
  between the two, element by element in its order; when no sequence is built nothing is
  sent. \<^verbatim>\<open>solve_problem\<close> sends nothing, or the system prompt followed by its one user
  message.
\<close>

theorem outbound_message_order:
  "(chat_messages e m h = Inr ms \<longrightarrow>
      snd (chat e m h sent) = sent @ [groq_request e ms DEFAULT_MODEL]
      \<and> hd ms = system_message
      \<and> last ms = user_message (JStr m)
      \<and> (\<exists>items. ms = [system_message] @ items @ [user_message (JStr m)]))
   \<and> (chat_messages e m h = Inl err \<longrightarrow> snd (chat e m h sent) = sent)
   \<and> (history \<noteq> [] \<and> json_loads e history = Inr (JArr items) \<longrightarrow>
        chat_messages e m (Some history) =
          Inr ([system_message] @ items @ [user_message (JStr m)]))
   \<and> (snd (solve_problem e problem_text image_file sent) = sent
        \<or> (\<exists>content.
              solve_user_message problem_text image_file = Inr (user_message content)
              \<and> snd (solve_problem e problem_text image_file sent) =
                  sent @ [groq_request e [system_message, user_message content] DEFAULT_MODEL]))"
proof -
  have "snd (chat e m h sent) = sent @ [groq_request e ms DEFAULT_MODEL]
      \<and> hd ms = system_message
      \<and> last ms = user_message (JStr m)
      \<and> (\<exists>items. ms = [system_message] @ items @ [user_message (JStr m)])"
    if "chat_messages e m h = Inr ms"
    using chat_messages_shape [OF that] that by (auto simp: chat_sent)
  moreover have "snd (chat e m h sent) = sent" if "chat_messages e m h = Inl err"
    using that by (simp add: chat_sent)
  moreover have "chat_messages e m (Some history) =
      Inr ([system_message] @ items @ [user_message (JStr m)])"
    if "history \<noteq> [] \<and> json_loads e history = Inr (JArr items)"
    using that by (simp add: chat_messages_array)
  moreover have "snd (solve_problem e problem_text image_file sent) = sent
      \<or> (\<exists>content.
            solve_user_message problem_text image_file = Inr (user_message content)
            \<and> snd (solve_problem e problem_text image_file sent) =
                sent @ [groq_request e [system_message, user_message content] DEFAULT_MODEL])"
  proof (cases "solve_user_message problem_text image_file")
    case (Inl err')
    then show ?thesis by (simp add: solve_problem_sent)
  next
    case (Inr um)
    from solve_user_message_shape [OF Inr] obtain content where "um = user_message content" ..
    with Inr show ?thesis by (auto simp: solve_problem_sent)
  qed
  ultimately show ?thesis by blast
qed

theorem outbound_message_order_witness:
  "chat_messages example_env (ascii ''Hi again'') (Some (ascii ''history'')) =
     Inr [system_message,
          JObj [(ascii ''role'', JStr (ascii ''user'')), (ascii ''content'', JStr (ascii ''Hi''))],
          JObj [(ascii ''role'', JStr (ascii ''assistant'')),
                (ascii ''content'', JStr (ascii ''Hello''))],
          user_message (JStr (ascii ''Hi again''))]
   \<and> snd (chat example_env (ascii ''Hi again'') None []) =
       [groq_request example_env
          [system_message, user_message (JStr (ascii ''Hi again''))] DEFAULT_MODEL]"
proof -
  have decoded: "ascii ''history'' \<noteq> []
      \<and> json_loads example_env (ascii ''history'') =
          Inr (JArr [JObj [(ascii ''role'', JStr (ascii ''user'')),
                           (ascii ''content'', JStr (ascii ''Hi''))],
                     JObj [(ascii ''role'', JStr (ascii ''assistant'')),
                           (ascii ''content'', JStr (ascii ''Hello''))]])"
    by (simp add: example_env_def example_loads_def example_history_def ascii_def)
  have msgs: "chat_messages example_env (ascii ''Hi again'') None =
                Inr [system_message, user_message (JStr (ascii ''Hi again''))]"
    by (simp add: chat_messages_omitted)
  show ?thesis
    using decoded msgs
      outbound_message_order [where e = example_env and m = "ascii ''Hi again''"
        and history = "ascii ''history''"
        and items = "[JObj [(ascii ''role'', JStr (ascii ''user'')),
                            (ascii ''content'', JStr (ascii ''Hi''))],
                      JObj [(ascii ''role'', JStr (ascii ''assistant'')),
                            (ascii ''content'', JStr (ascii ''Hello''))]]"
        and h = None and ms = "[system_message, user_message (JStr (ascii ''Hi again''))]"
        and sent = "[]"]
    by simp
qed


subsection \<open>Image requests\<close>

lemma solve_image_message:
  assumes "read img = Inr image_data"
  shows "solve_user_message problem_text (Some img) =
           Inr (user_message
                  (image_parts (str_or (content_type img) (ascii ''image/jpeg''))
                     (b64encode image_data) (image_instruction problem_text)))"
  using assms by (simp add: solve_user_message_def Let_def)

lemma image_instruction_cases:
  "image_instruction problem_text =
     (case problem_text of
        None \<Rightarrow> DEFAULT_IMAGE_INSTRUCTION
      | Some t \<Rightarrow>
          if detect_arabic t then ARABIC_IMAGE_INSTRUCTION
          else if t = [] then DEFAULT_IMAGE_INSTRUCTION
          else t)"
  by (auto simp: image_instruction_def is_arabic_guarded_def str_or_def detect_arabic_def
        split: option.split)

text \<open>
  Claim C6. For a request with an image that can be read, the user message has two parts.
  The image part carries the URL \<^verbatim>\<open>data:\<close>, the declared content type (\<^verbatim>\<open>image/jpeg\<close> when
  none or an empty one is declared), \<^verbatim>\<open>;base64,\<close> and the base64 text of the bytes. The
  text part is the fixed Arabic instruction when the text is detected as Arabic, the
  caller's text when it is not empty and not Arabic, and the default English instruction
  when the text is absent or empty. This message follows the system prompt in the one
  request that is sent.
\<close>

theorem solve_image_user_message:
  assumes "read img = Inr image_data"
    and "mime_type = (case content_type img of
                        None \<Rightarrow> ascii ''image/jpeg''
                      | Some declared \<Rightarrow> if declared = [] then ascii ''image/jpeg'' else declared)"
    and "instruction = (case problem_text of
                          None \<Rightarrow> DEFAULT_IMAGE_INSTRUCTION
                        | Some t \<Rightarrow>
                            if detect_arabic t then ARABIC_IMAGE_INSTRUCTION
                            else if t = [] then DEFAULT_IMAGE_INSTRUCTION
                            else t)"
    and "um = user_message
                (JArr [JObj [(ascii ''type'', JStr (ascii ''image_url'')),
                             (ascii ''image_url'',
                                JObj [(ascii ''url'',
                                         JStr (ascii ''data:'' @ mime_type @ ascii '';base64,''
                                               @ b64encode image_data))])],
                       JObj [(ascii ''type'', JStr (ascii ''text'')),
                             (ascii ''text'', JStr instruction)]])"
  shows "solve_user_message problem_text (Some img) = Inr um
         \<and> snd (solve_problem e problem_text (Some img) sent) =
             sent @ [groq_request e [system_message, um] DEFAULT_MODEL]"
proof -
  have "str_or (content_type img) (ascii ''image/jpeg'') = mime_type"
    using assms(2) by (simp add: str_or_def)
  moreover have "image_instruction problem_text = instruction"
    using assms(3) by (simp add: image_instruction_cases)
  ultimately have um: "solve_user_message problem_text (Some img) = Inr um"
    using assms(1,4) by (simp add: solve_image_message image_parts_def data_uri_def)
  then show ?thesis by (simp add: solve_problem_sent)
qed

theorem solve_image_user_message_witness:
  "solve_user_message (Some [1581, 1604, 32, 50, 120]) (Some example_image) =
     Inr (user_message
            (JArr [JObj [(ascii ''type'', JStr (ascii ''image_url'')),
                         (ascii ''image_url'',
                            JObj [(ascii ''url'', JStr (ascii ''data:image/jpeg;base64,TWFu''))])],
                   JObj [(ascii ''type'', JStr (ascii ''text'')),
                         (ascii ''text'', JStr ARABIC_IMAGE_INSTRUCTION)]]))"
proof -
  have bytes: "read example_image = Inr [0x4D, 0x61, 0x6E]"
    and mime: "ascii ''image/jpeg'' =
      (case content_type example_image of
         None \<Rightarrow> ascii ''image/jpeg''
       | Some declared \<Rightarrow> if declared = [] then ascii ''image/jpeg'' else declared)"
    by (simp_all add: example_image_def)
  have instruction: "ARABIC_IMAGE_INSTRUCTION =
      (case Some [1581, 1604, 32, 50, 120] of
         None \<Rightarrow> DEFAULT_IMAGE_INSTRUCTION
       | Some t \<Rightarrow>
           if detect_arabic t then ARABIC_IMAGE_INSTRUCTION
           else if t = [] then DEFAULT_IMAGE_INSTRUCTION
           else t)"
    by (simp add: detect_arabic_def is_arabic_char_def)
  have encoded: "ascii ''data:'' @ ascii ''image/jpeg'' @ ascii '';base64,''
      @ b64encode [0x4D, 0x61, 0x6E] = ascii ''data:image/jpeg;base64,TWFu''"
    by (simp add: ascii_def b64_char_def)
  show ?thesis
    using solve_image_user_message [OF bytes mime instruction refl, of example_env "[]"]
    by (simp only: encoded)
qed


subsection \<open>The provider response\<close>

lemma py_getitem_KeyError:
  assumes "py_getitem r k = Inl KeyError"
  shows "py_contains r k = Inr False"
proof (cases r)
  case (JObj kvs)
  with assms have "map_of kvs k = None" by (simp split: option.splits)
  then have "k \<notin> fst ` set kvs" by (simp add: map_of_eq_None_iff)
  with JObj show ?thesis by simp
qed (use assms in simp_all)

lemma py_getitem_present:
  assumes "py_getitem r k = Inr v"
  shows "py_contains r k = Inr True"
proof (cases r)
  case (JObj kvs)
  with assms have "map_of kvs k = Some v" by (simp split: option.splits)
  then have "(k, v) \<in> set kvs" by (rule map_of_SomeD)
  then have "k \<in> fst ` set kvs" by force
  with JObj show ?thesis by simp
qed (use assms in simp_all)

lemma py_get_getitem:
  assumes "py_getitem r k' = Inr v'"
  shows "py_get r k d = Inr (case py_getitem r k of Inr v \<Rightarrow> v | Inl err \<Rightarrow> d)"
  using assms by (cases r) (simp_all split: option.splits)

lemma extract_content_invalid:
  assumes "py_getitem r (ascii ''choices'') = Inl KeyError
           \<or> py_getitem r (ascii ''choices'') = Inr (JArr [])"
  shows "extract_content r = Inl invalid_response"
  using assms
  by (auto simp: extract_content_def and_then_def py_getitem_KeyError py_getitem_present)

lemma extract_content_first:
  assumes "py_getitem r (ascii ''choices'') = Inr (JArr (choice # choices))"
    and "py_getitem choice (ascii ''message'') = Inr message"
    and "py_getitem message (ascii ''content'') = Inr content"
  shows "extract_content r = Inr content"
  using assms by (simp add: extract_content_def and_then_def py_getitem_present)

lemma except_clauses_invalid_response:
  "except_clauses (Inl invalid_response) =
     Inl (HTTPException 500 (Formatted (ascii ''Internal server error: '') invalid_response))"
  by (simp add: except_clauses_def invalid_response_def)

lemma chat_on_response:
  assumes "chat_messages e m h = Inr ms"
    and "fst (call_groq_api e ms DEFAULT_MODEL sent) = Inr r"
  shows "fst (chat e m h sent) = except_clauses (chat_response r)"
  using assms by (simp add: chat_result and_then_def)

lemma solve_on_response:
  assumes "str_truthy problem_text \<or> image_file \<noteq> None"
    and "solve_user_message problem_text image_file = Inr um"
    and "fst (call_groq_api e [system_message, um] DEFAULT_MODEL sent) = Inr r"
  shows "fst (solve_problem e problem_text image_file sent) =
           except_clauses (solve_response problem_text image_file r)"
  using assms by (auto simp: solve_problem_result and_then_def)

lemma chat_response_invalid:
  assumes "py_getitem r (ascii ''choices'') = Inl KeyError
           \<or> py_getitem r (ascii ''choices'') = Inr (JArr [])"
  shows "except_clauses (chat_response r) =
           Inl (HTTPException 500
                  (Formatted (ascii ''Internal server error: '') invalid_response))"
  using extract_content_invalid [OF assms]
  by (simp add: chat_response_def and_then_def except_clauses_invalid_response)

lemma solve_response_invalid:
  assumes "py_getitem r (ascii ''choices'') = Inl KeyError
           \<or> py_getitem r (ascii ''choices'') = Inr (JArr [])"
  shows "except_clauses (solve_response problem_text image_file r) =
           Inl (HTTPException 500
                  (Formatted (ascii ''Internal server error: '') invalid_response))"
  using extract_content_invalid [OF assms]
  by (simp add: solve_response_def and_then_def except_clauses_invalid_response)

lemma except_clauses_JSONResponse:
  "except_clauses (JSONResponse body) =
     (if has_nonfinite body
      then Inl (HTTPException 500 (Formatted (ascii ''Internal server error: '') ValueError))
      else if has_surrogate body
      then Inl (HTTPException 500
                  (Formatted (ascii ''Internal server error: '') UnicodeEncodeError))
      else Inr body)"
  by (simp add: JSONResponse_def except_clauses_def)

lemma chat_response_first:
  assumes "py_getitem r (ascii ''choices'') = Inr (JArr (choice # choices))"
    and "py_getitem choice (ascii ''message'') = Inr message"
    and "py_getitem message (ascii ''content'') = Inr content"
  shows "chat_response r =
           JSONResponse
             (JObj [(ascii ''success'', JBool True),
                     (ascii ''response'', content),
                     (ascii ''model'',
                        case py_getitem r (ascii ''model'') of
                          Inr model \<Rightarrow> model
                        | Inl err \<Rightarrow> JStr DEFAULT_MODEL)])"
  using extract_content_first [OF assms] py_get_getitem [OF assms(1)]
  by (simp add: chat_response_def and_then_def)

lemma solve_response_first:
  assumes "py_getitem r (ascii ''choices'') = Inr (JArr (choice # choices))"
    and "py_getitem choice (ascii ''message'') = Inr message"
    and "py_getitem message (ascii ''content'') = Inr content"
  shows "solve_response problem_text image_file r =
           JSONResponse
             (JObj [(ascii ''success'', JBool True),
                     (ascii ''solution'', content),
                     (ascii ''model'',
                        case py_getitem r (ascii ''model'') of
                          Inr model \<Rightarrow> model
                        | Inl err \<Rightarrow> JStr DEFAULT_MODEL),
                     (ascii ''usage'',
                        case py_getitem r (ascii ''usage'') of
                          Inr usage \<Rightarrow> usage
                        | Inl err \<Rightarrow> JObj []),
                     (ascii ''metadata'',
                        JObj [(ascii ''has_image'', JBool (image_file \<noteq> None)),
                              (ascii ''has_text'', JBool (problem_text \<noteq> None)),
                              (ascii ''teaching_mode'', JStr (ascii ''adaptive''))])])"
  using extract_content_first [OF assms] py_get_getitem [OF assms(1)]
  by (simp add: solve_response_def and_then_def)

lemma encoded_or_500:
  assumes "answer = except_clauses (JSONResponse body)"
  shows "(\<not> has_nonfinite body \<and> \<not> has_surrogate body \<longrightarrow> answer = Inr body)
         \<and> (has_nonfinite body \<or> has_surrogate body \<longrightarrow>
              (\<exists>err. answer =
                 Inl (HTTPException 500 (Formatted (ascii ''Internal server error: '') err)))
              \<and> status_code answer = 500)"
  using assms by (auto simp: except_clauses_JSONResponse status_code_def)

text \<open>
  Claim C3, as the code has it. Let the provider answer a request of \<^verbatim>\<open>chat\<close> or of
  \<^verbatim>\<open>solve_problem\<close> with the JSON value \<open>r\<close>. When \<open>r\<close> has no key \<open>choices\<close>, or an empty
  list under it, the handler raises an \<^verbatim>\<open>HTTPException\<close> with status 500 (the one of line
  282 or 349, wrapped by the \<^verbatim>\<open>except\<close> clause); the result is a value, no exception
  escapes. When \<open>choices\<close> is a non-empty list whose first element has a message with a
  content, the answer is built with that content as \<open>response\<close> or \<open>solution\<close>, and for
  \<^verbatim>\<open>solve_problem\<close> with the usage block of \<open>r\<close>, or the empty dict when \<open>r\<close> has none. It is
  returned when it can be encoded, that is when it holds no float that is not finite and no
  surrogate; otherwise the request is answered 500.
\<close>

theorem provider_response_unwrapped:
  "(chat_messages e m h = Inr ms \<and> fst (call_groq_api e ms DEFAULT_MODEL sent) = Inr r \<longrightarrow>
      (py_getitem r (ascii ''choices'') = Inl KeyError
       \<or> py_getitem r (ascii ''choices'') = Inr (JArr [])
       \<longrightarrow> fst (chat e m h sent) =
             Inl (HTTPException 500
                    (Formatted (ascii ''Internal server error: '') invalid_response))
           \<and> status_code (fst (chat e m h sent)) = 500)
      \<and> (py_getitem r (ascii ''choices'') = Inr (JArr (choice # choices))
         \<and> py_getitem choice (ascii ''message'') = Inr message
         \<and> py_getitem message (ascii ''content'') = Inr content
         \<and> chat_body =
              JObj [(ascii ''success'', JBool True),
                     (ascii ''response'', content),
                     (ascii ''model'',
                        case py_getitem r (ascii ''model'') of
                          Inr model \<Rightarrow> model
                        | Inl err \<Rightarrow> JStr DEFAULT_MODEL)]
       \<longrightarrow> (\<not> has_nonfinite chat_body \<and> \<not> has_surrogate chat_body \<longrightarrow>
               fst (chat e m h sent) = Inr chat_body)
           \<and> (has_nonfinite chat_body \<or> has_surrogate chat_body \<longrightarrow>
               (\<exists>err. fst (chat e m h sent) =
                  Inl (HTTPException 500 (Formatted (ascii ''Internal server error: '') err)))
               \<and> status_code (fst (chat e m h sent)) = 500)))
   \<and> ((str_truthy problem_text \<or> image_file \<noteq> None)
       \<and> solve_user_message problem_text image_file = Inr um
       \<and> fst (call_groq_api e [system_message, um] DEFAULT_MODEL sent) = Inr r \<longrightarrow>
      (py_getitem r (ascii ''choices'') = Inl KeyError
       \<or> py_getitem r (ascii ''choices'') = Inr (JArr [])
       \<longrightarrow> fst (solve_problem e problem_text image_file sent) =
             Inl (HTTPException 500
                    (Formatted (ascii ''Internal server error: '') invalid_response))
           \<and> status_code (fst (solve_problem e problem_text image_file sent)) = 500)
      \<and> (py_getitem r (ascii ''choices'') = Inr (JArr (choice # choices))
         \<and> py_getitem choice (ascii ''message'') = Inr message
         \<and> py_getitem message (ascii ''content'') = Inr content
         \<and> solve_body =
              JObj [(ascii ''success'', JBool True),
                     (ascii ''solution'', content),
                     (ascii ''model'',
                        case py_getitem r (ascii ''model'') of
                          Inr model \<Rightarrow> model
                        | Inl err \<Rightarrow> JStr DEFAULT_MODEL),
                     (ascii ''usage'',
                        case py_getitem r (ascii ''usage'') of
                          Inr usage \<Rightarrow> usage
                        | Inl err \<Rightarrow> JObj []),
                     (ascii ''metadata'',
                        JObj [(ascii ''has_image'', JBool (image_file \<noteq> None)),
                              (ascii ''has_text'', JBool (problem_text \<noteq> None)),
                              (ascii ''teaching_mode'', JStr (ascii ''adaptive''))])]
       \<longrightarrow> (\<not> has_nonfinite solve_body \<and> \<not> has_surrogate solve_body \<longrightarrow>
               fst (solve_problem e problem_text image_file sent) = Inr solve_body)
           \<and> (has_nonfinite solve_body \<or> has_surrogate solve_body \<longrightarrow>
               (\<exists>err. fst (solve_problem e problem_text image_file sent) =
                  Inl (HTTPException 500 (Formatted (ascii ''Internal server error: '') err)))
               \<and> status_code (fst (solve_problem e problem_text image_file sent)) = 500)))"
proof -
  have chat_part: "(py_getitem r (ascii ''choices'') = Inl KeyError
       \<or> py_getitem r (ascii ''choices'') = Inr (JArr [])
       \<longrightarrow> fst (chat e m h sent) =
             Inl (HTTPException 500
                    (Formatted (ascii ''Internal server error: '') invalid_response))
           \<and> status_code (fst (chat e m h sent)) = 500)
      \<and> (py_getitem r (ascii ''choices'') = Inr (JArr (choice # choices))
         \<and> py_getitem choice (ascii ''message'') = Inr message
         \<and> py_getitem message (ascii ''content'') = Inr content
         \<and> chat_body =
              JObj [(ascii ''success'', JBool True),
                     (ascii ''response'', content),
                     (ascii ''model'',
                        case py_getitem r (ascii ''model'') of
                          Inr model \<Rightarrow> model
                        | Inl err \<Rightarrow> JStr DEFAULT_MODEL)]
       \<longrightarrow> (\<not> has_nonfinite chat_body \<and> \<not> has_surrogate chat_body \<longrightarrow>
               fst (chat e m h sent) = Inr chat_body)
           \<and> (has_nonfinite chat_body \<or> has_surrogate chat_body \<longrightarrow>
               (\<exists>err. fst (chat e m h sent) =
                  Inl (HTTPException 500 (Formatted (ascii ''Internal server error: '') err)))
               \<and> status_code (fst (chat e m h sent)) = 500))"
    if "chat_messages e m h = Inr ms \<and> fst (call_groq_api e ms DEFAULT_MODEL sent) = Inr r"
  proof -
    from that have eq: "fst (chat e m h sent) = except_clauses (chat_response r)"
      by (simp add: chat_on_response)
    have invalid: "fst (chat e m h sent) =
            Inl (HTTPException 500
                   (Formatted (ascii ''Internal server error: '') invalid_response))
          \<and> status_code (fst (chat e m h sent)) = 500"
      if "py_getitem r (ascii ''choices'') = Inl KeyError
          \<or> py_getitem r (ascii ''choices'') = Inr (JArr [])"
      using chat_response_invalid [OF that] eq by (simp add: status_code_def)
    have first: "fst (chat e m h sent) = except_clauses (JSONResponse chat_body)"
      if "py_getitem r (ascii ''choices'') = Inr (JArr (choice # choices))"
        and "py_getitem choice (ascii ''message'') = Inr message"
        and "py_getitem message (ascii ''content'') = Inr content"
        and "chat_body =
              JObj [(ascii ''success'', JBool True),
                     (ascii ''response'', content),
                     (ascii ''model'',
                        case py_getitem r (ascii ''model'') of
                          Inr model \<Rightarrow> model
                        | Inl err \<Rightarrow> JStr DEFAULT_MODEL)]"
      using chat_response_first [OF that(1,2,3)] that(4) eq by simp
    from invalid encoded_or_500 [OF first] show ?thesis by blast
  qed
  have solve_part: "(py_getitem r (ascii ''choices'') = Inl KeyError
       \<or> py_getitem r (ascii ''choices'') = Inr (JArr [])
       \<longrightarrow> fst (solve_problem e problem_text image_file sent) =
             Inl (HTTPException 500
                    (Formatted (ascii ''Internal server error: '') invalid_response))
           \<and> status_code (fst (solve_problem e problem_text image_file sent)) = 500)
      \<and> (py_getitem r (ascii ''choices'') = Inr (JArr (choice # choices))
         \<and> py_getitem choice (ascii ''message'') = Inr message
         \<and> py_getitem message (ascii ''content'') = Inr content
         \<and> solve_body =
              JObj [(ascii ''success'', JBool True),
                     (ascii ''solution'', content),
                     (ascii ''model'',
                        case py_getitem r (ascii ''model'') of
                          Inr model \<Rightarrow> model
                        | Inl err \<Rightarrow> JStr DEFAULT_MODEL),
                     (ascii ''usage'',
                        case py_getitem r (ascii ''usage'') of
                          Inr usage \<Rightarrow> usage
                        | Inl err \<Rightarrow> JObj []),
                     (ascii ''metadata'',
                        JObj [(ascii ''has_image'', JBool (image_file \<noteq> None)),
                              (ascii ''has_text'', JBool (problem_text \<noteq> None)),
                              (ascii ''teaching_mode'', JStr (ascii ''adaptive''))])]
       \<longrightarrow> (\<not> has_nonfinite solve_body \<and> \<not> has_surrogate solve_body \<longrightarrow>
               fst (solve_problem e problem_text image_file sent) = Inr solve_body)
           \<and> (has_nonfinite solve_body \<or> has_surrogate solve_body \<longrightarrow>
               (\<exists>err. fst (solve_problem e problem_text image_file sent) =
                  Inl (HTTPException 500 (Formatted (ascii ''Internal server error: '') err)))
               \<and> status_code (fst (solve_problem e problem_text image_file sent)) = 500))"
    if "(str_truthy problem_text \<or> image_file \<noteq> None)
        \<and> solve_user_message problem_text image_file = Inr um
        \<and> fst (call_groq_api e [system_message, um] DEFAULT_MODEL sent) = Inr r"
  proof -
    from that have eq: "fst (solve_problem e problem_text image_file sent) =
        except_clauses (solve_response problem_text image_file r)"
      by (simp add: solve_on_response)
    have invalid: "fst (solve_problem e problem_text image_file sent) =
            Inl (HTTPException 500
                   (Formatted (ascii ''Internal server error: '') invalid_response))
          \<and> status_code (fst (solve_problem e problem_text image_file sent)) = 500"
      if "py_getitem r (ascii ''choices'') = Inl KeyError
          \<or> py_getitem r (ascii ''choices'') = Inr (JArr [])"
      using solve_response_invalid [OF that] eq by (simp add: status_code_def)
    have first: "fst (solve_problem e problem_text image_file sent) = except_clauses (JSONResponse solve_body)"
      if "py_getitem r (ascii ''choices'') = Inr (JArr (choice # choices))"
        and "py_getitem choice (ascii ''message'') = Inr message"
        and "py_getitem message (ascii ''content'') = Inr content"
        and "solve_body =
              JObj [(ascii ''success'', JBool True),
                     (ascii ''solution'', content),
                     (ascii ''model'',
                        case py_getitem r (ascii ''model'') of
                          Inr model \<Rightarrow> model
                        | Inl err \<Rightarrow> JStr DEFAULT_MODEL),
                     (ascii ''usage'',
                        case py_getitem r (ascii ''usage'') of
                          Inr usage \<Rightarrow> usage
                        | Inl err \<Rightarrow> JObj []),
                     (ascii ''metadata'',
                        JObj [(ascii ''has_image'', JBool (image_file \<noteq> None)),
                              (ascii ''has_text'', JBool (problem_text \<noteq> None)),
                              (ascii ''teaching_mode'', JStr (ascii ''adaptive''))])]"
      using solve_response_first [OF that(1,2,3), of problem_text image_file] that(4) eq
      by simp
    from invalid encoded_or_500 [OF first] show ?thesis by blast
  qed
  from chat_part solve_part show ?thesis by blast
qed

lemma example_completion_fields:
  "py_getitem example_completion (ascii ''choices'') =
     Inr (JArr [JObj [(ascii ''message'',
                         JObj [(ascii ''role'', JStr (ascii ''assistant'')),
                               (ascii ''content'', JStr (ascii ''x = 4''))])]])"
  "py_getitem
     (JObj [(ascii ''message'',
               JObj [(ascii ''role'', JStr (ascii ''assistant'')),
                     (ascii ''content'', JStr (ascii ''x = 4''))])])
     (ascii ''message'') =
     Inr (JObj [(ascii ''role'', JStr (ascii ''assistant'')),
                (ascii ''content'', JStr (ascii ''x = 4''))])"
  "py_getitem
     (JObj [(ascii ''role'', JStr (ascii ''assistant'')),
            (ascii ''content'', JStr (ascii ''x = 4''))])
     (ascii ''content'') = Inr (JStr (ascii ''x = 4''))"
  "py_getitem example_completion (ascii ''model'') =
     Inr (JStr (ascii ''llama-3.3-70b-versatile''))"
  "py_getitem example_completion (ascii ''usage'') = Inl KeyError"
  by (simp_all add: example_completion_def ascii_def)

lemma example_solve_body_encodable:
  "\<not> has_nonfinite
       (JObj [(ascii ''success'', JBool True),
              (ascii ''solution'', JStr (ascii ''x = 4'')),
              (ascii ''model'', JStr (ascii ''llama-3.3-70b-versatile'')),
              (ascii ''usage'', JObj []),
              (ascii ''metadata'',
                 JObj [(ascii ''has_image'', JBool has_image),
                       (ascii ''has_text'', JBool has_text),
                       (ascii ''teaching_mode'', JStr (ascii ''adaptive''))])])"
  "\<not> has_surrogate
       (JObj [(ascii ''success'', JBool True),
              (ascii ''solution'', JStr (ascii ''x = 4'')),
              (ascii ''model'', JStr (ascii ''llama-3.3-70b-versatile'')),
              (ascii ''usage'', JObj []),
              (ascii ''metadata'',
                 JObj [(ascii ''has_image'', JBool has_image),
                       (ascii ''has_text'', JBool has_text),
                       (ascii ''teaching_mode'', JStr (ascii ''adaptive''))])])"
  by (simp_all add: ascii_def is_surrogate_def)

lemma example_solve_answer:
  assumes "str_truthy problem_text \<or> image_file \<noteq> None"
    and "solve_user_message problem_text image_file = Inr um"
  shows "fst (solve_problem example_env problem_text image_file sent) =
           Inr (JObj [(ascii ''success'', JBool True),
                      (ascii ''solution'', JStr (ascii ''x = 4'')),
                      (ascii ''model'', JStr (ascii ''llama-3.3-70b-versatile'')),
                      (ascii ''usage'', JObj []),
                      (ascii ''metadata'',
                         JObj [(ascii ''has_image'', JBool (image_file \<noteq> None)),
                               (ascii ''has_text'', JBool (problem_text \<noteq> None)),
                               (ascii ''teaching_mode'', JStr (ascii ''adaptive''))])])"
proof -
  have "fst (call_groq_api example_env [system_message, um] DEFAULT_MODEL sent) =
          Inr example_completion"
    by (simp add: call_groq_api_result example_env_def)
  from solve_on_response [OF assms this]
  have "fst (solve_problem example_env problem_text image_file sent) =
          except_clauses (solve_response problem_text image_file example_completion)" .
  also have "solve_response problem_text image_file example_completion =
      JSONResponse
        (JObj [(ascii ''success'', JBool True),
               (ascii ''solution'', JStr (ascii ''x = 4'')),
               (ascii ''model'', JStr (ascii ''llama-3.3-70b-versatile'')),
               (ascii ''usage'', JObj []),
               (ascii ''metadata'',
                  JObj [(ascii ''has_image'', JBool (image_file \<noteq> None)),
                        (ascii ''has_text'', JBool (problem_text \<noteq> None)),
                        (ascii ''teaching_mode'', JStr (ascii ''adaptive''))])])"
    using solve_response_first [OF example_completion_fields(1,2,3), of problem_text image_file]
    by (simp add: example_completion_fields(4,5))
  finally show ?thesis
    by (simp only: except_clauses_JSONResponse example_solve_body_encodable if_False)
qed

lemma surrogate_completion_fields:
  "py_getitem surrogate_completion (ascii ''choices'') =
     Inr (JArr [JObj [(ascii ''message'',
                         JObj [(ascii ''role'', JStr (ascii ''assistant'')),
                               (ascii ''content'', JStr [0xD800])])]])"
  "py_getitem
     (JObj [(ascii ''message'',
               JObj [(ascii ''role'', JStr (ascii ''assistant'')),
                     (ascii ''content'', JStr [0xD800])])])
     (ascii ''message'') =
     Inr (JObj [(ascii ''role'', JStr (ascii ''assistant'')), (ascii ''content'', JStr [0xD800])])"
  "py_getitem
     (JObj [(ascii ''role'', JStr (ascii ''assistant'')), (ascii ''content'', JStr [0xD800])])
     (ascii ''content'') = Inr (JStr [0xD800])"
  "py_getitem surrogate_completion (ascii ''model'') = Inl KeyError"
  by (simp_all add: surrogate_completion_def ascii_def)

lemma surrogate_chat_body:
  "\<not> has_nonfinite
       (JObj [(ascii ''success'', JBool True), (ascii ''response'', JStr [0xD800]),
              (ascii ''model'', JStr DEFAULT_MODEL)])"
  "has_surrogate
     (JObj [(ascii ''success'', JBool True), (ascii ''response'', JStr [0xD800]),
            (ascii ''model'', JStr DEFAULT_MODEL)])"
  by (simp_all add: is_surrogate_def)

lemma surrogate_env_answer:
  "fst (call_groq_api surrogate_env [system_message, user_message (JStr (ascii ''Hi''))]
          DEFAULT_MODEL []) = Inr surrogate_completion"
  by (simp add: call_groq_api_result surrogate_env_def)

theorem provider_response_unwrapped_witness:
  "fst (chat empty_choices_env (ascii ''Hi'') None []) =
     Inl (HTTPException 500 (Formatted (ascii ''Internal server error: '') invalid_response))
   \<and> status_code (fst (chat empty_choices_env (ascii ''Hi'') None [])) = 500
   \<and> fst (solve_problem example_env (Some (ascii ''2x+5=13'')) None []) =
       Inr (JObj [(ascii ''success'', JBool True),
                  (ascii ''solution'', JStr (ascii ''x = 4'')),
                  (ascii ''model'', JStr (ascii ''llama-3.3-70b-versatile'')),
                  (ascii ''usage'', JObj []),
                  (ascii ''metadata'',
                     JObj [(ascii ''has_image'', JBool False),
                           (ascii ''has_text'', JBool True),
                           (ascii ''teaching_mode'', JStr (ascii ''adaptive''))])])
   \<and> status_code (fst (chat surrogate_env (ascii ''Hi'') None [])) = 500"
proof -
  have msgs: "chat_messages env' (ascii ''Hi'') None =
                Inr [system_message, user_message (JStr (ascii ''Hi''))]" for env'
    by (simp add: chat_messages_omitted)
  have empty: "fst (call_groq_api empty_choices_env
                      [system_message, user_message (JStr (ascii ''Hi''))] DEFAULT_MODEL []) =
                 Inr (JObj [(ascii ''choices'', JArr [])])"
    by (simp add: call_groq_api_result empty_choices_env_def)
  have no_choice: "py_getitem (JObj [(ascii ''choices'', JArr [])]) (ascii ''choices'') =
                     Inr (JArr [])"
    by simp
  have rejected: "fst (chat empty_choices_env (ascii ''Hi'') None []) =
        Inl (HTTPException 500 (Formatted (ascii ''Internal server error: '') invalid_response))
      \<and> status_code (fst (chat empty_choices_env (ascii ''Hi'') None [])) = 500"
    using msgs empty no_choice
      provider_response_unwrapped [where e = empty_choices_env and m = "ascii ''Hi''"
        and h = None and ms = "[system_message, user_message (JStr (ascii ''Hi''))]"
        and sent = "[]" and r = "JObj [(ascii ''choices'', JArr [])]"
        and problem_text = None and image_file = None]
    by (simp add: str_truthy_def status_code_def)
  have given: "str_truthy (Some (ascii ''2x+5=13''))"
    by (simp add: str_truthy_def ascii_def)
  have um: "solve_user_message (Some (ascii ''2x+5=13'')) None =
              Inr (user_message (JStr (ascii ''2x+5=13'' @ ENGLISH_DIRECTIVE)))"
    by (simp add: solve_text_message detect_arabic_def is_arabic_char_def ascii_def)
  have answered: "fst (call_groq_api example_env
                         [system_message,
                          user_message (JStr (ascii ''2x+5=13'' @ ENGLISH_DIRECTIVE))]
                         DEFAULT_MODEL []) = Inr example_completion"
    by (simp add: call_groq_api_result example_env_def)
  have solved: "fst (solve_problem example_env (Some (ascii ''2x+5=13'')) None []) =
       Inr (JObj [(ascii ''success'', JBool True),
                  (ascii ''solution'', JStr (ascii ''x = 4'')),
                  (ascii ''model'', JStr (ascii ''llama-3.3-70b-versatile'')),
                  (ascii ''usage'', JObj []),
                  (ascii ''metadata'',
                     JObj [(ascii ''has_image'', JBool False),
                           (ascii ''has_text'', JBool True),
                           (ascii ''teaching_mode'', JStr (ascii ''adaptive''))])])"
    using given um answered example_completion_fields
      example_solve_body_encodable [of False True]
      provider_response_unwrapped [where e = example_env
        and problem_text = "Some (ascii ''2x+5=13'')" and image_file = None
        and um = "user_message (JStr (ascii ''2x+5=13'' @ ENGLISH_DIRECTIVE))"
        and sent = "[]" and r = example_completion
        and choice = "JObj [(ascii ''message'',
                               JObj [(ascii ''role'', JStr (ascii ''assistant'')),
                                     (ascii ''content'', JStr (ascii ''x = 4''))])]"
        and choices = "[]"
        and message = "JObj [(ascii ''role'', JStr (ascii ''assistant'')),
                             (ascii ''content'', JStr (ascii ''x = 4''))]"
        and content = "JStr (ascii ''x = 4'')"
        and solve_body = "JObj [(ascii ''success'', JBool True),
                  (ascii ''solution'', JStr (ascii ''x = 4'')),
                  (ascii ''model'', JStr (ascii ''llama-3.3-70b-versatile'')),
                  (ascii ''usage'', JObj []),
                  (ascii ''metadata'',
                     JObj [(ascii ''has_image'', JBool False),
                           (ascii ''has_text'', JBool True),
                           (ascii ''teaching_mode'', JStr (ascii ''adaptive''))])]"
        and m = "ascii ''Hi''" and h = None and ms = "[]"]
    by (simp add: chat_messages_omitted)
  have unencodable: "status_code (fst (chat surrogate_env (ascii ''Hi'') None [])) = 500"
    using msgs surrogate_env_answer surrogate_completion_fields surrogate_chat_body
      provider_response_unwrapped [where e = surrogate_env and m = "ascii ''Hi''"
        and h = None and ms = "[system_message, user_message (JStr (ascii ''Hi''))]"
        and sent = "[]" and r = surrogate_completion
        and choice = "JObj [(ascii ''message'',
                               JObj [(ascii ''role'', JStr (ascii ''assistant'')),
                                     (ascii ''content'', JStr [0xD800])])]"
        and choices = "[]"
        and message = "JObj [(ascii ''role'', JStr (ascii ''assistant'')),
                             (ascii ''content'', JStr [0xD800])]"
        and content = "JStr [0xD800]"
        and chat_body = "JObj [(ascii ''success'', JBool True),
                               (ascii ''response'', JStr [0xD800]),
                               (ascii ''model'', JStr DEFAULT_MODEL)]"
        and problem_text = None and image_file = None]
    by (simp add: str_truthy_def)
  from rejected solved unencodable show ?thesis by (simp add: status_code_def)
qed

text \<open>
  The claim as the spec states it fails: here the provider's answer has one choice, whose
  message content is a lone surrogate, and the request is answered 500 without any text.
\<close>

theorem unencodable_content_counterexample:
  "fst (call_groq_api surrogate_env [system_message, user_message (JStr (ascii ''Hi''))]
          DEFAULT_MODEL []) = Inr surrogate_completion
   \<and> extract_content surrogate_completion = Inr (JStr [0xD800])
   \<and> fst (chat surrogate_env (ascii ''Hi'') None []) =
       Inl (HTTPException 500
              (Formatted (ascii ''Internal server error: '') UnicodeEncodeError))"
proof -
  have "fst (chat surrogate_env (ascii ''Hi'') None []) =
          except_clauses (chat_response surrogate_completion)"
    using chat_on_response [OF chat_messages_omitted surrogate_env_answer] .
  also have "chat_response surrogate_completion =
      JSONResponse
        (JObj [(ascii ''success'', JBool True), (ascii ''response'', JStr [0xD800]),
               (ascii ''model'', JStr DEFAULT_MODEL)])"
    using chat_response_first [OF surrogate_completion_fields(1,2,3)]
    by (simp add: surrogate_completion_fields(4))
  finally have "fst (chat surrogate_env (ascii ''Hi'') None []) =
      Inl (HTTPException 500
             (Formatted (ascii ''Internal server error: '') UnicodeEncodeError))"
    by (simp only: except_clauses_JSONResponse surrogate_chat_body if_False if_True)
  with surrogate_env_answer extract_content_first [OF surrogate_completion_fields(1,2,3)]
  show ?thesis by simp
qed


subsection \<open>Empty text\<close>

lemma solve_problem_success:
  assumes "fst (solve_problem e problem_text image_file sent) = Inr body"
  shows "\<exists>r. solve_response problem_text image_file r = Inr body"
proof -
  have inner: "except_clauses x = Inr body \<Longrightarrow> x = Inr body" for x :: "exn + json"
    by (cases x) (simp_all add: except_clauses_def split: exn.splits)
  from assms show ?thesis
    by (auto simp: solve_problem_result and_then_def dest!: inner split: if_splits sum.splits)
qed

lemma solve_response_metadata:
  assumes "solve_response problem_text image_file r = Inr body"
  shows "py_getitem body (ascii ''metadata'') =
           Inr (JObj [(ascii ''has_image'', JBool (image_file \<noteq> None)),
                      (ascii ''has_text'', JBool (problem_text \<noteq> None)),
                      (ascii ''teaching_mode'', JStr (ascii ''adaptive''))])"
proof -
  from assms obtain solution model usage where
    "body = JObj [(ascii ''success'', JBool True),
                  (ascii ''solution'', solution),
                  (ascii ''model'', model),
                  (ascii ''usage'', usage),
                  (ascii ''metadata'',
                     JObj [(ascii ''has_image'', JBool (image_file \<noteq> None)),
                           (ascii ''has_text'', JBool (problem_text \<noteq> None)),
                           (ascii ''teaching_mode'', JStr (ascii ''adaptive''))])]"
    by (auto simp: solve_response_def and_then_def JSONResponse_def
          split: sum.splits if_splits)
  then show ?thesis by (simp add: ascii_def)
qed

lemma solve_problem_has_text:
  assumes "fst (solve_problem e problem_text image_file sent) = Inr body"
  shows "and_then (py_getitem body (ascii ''metadata'')) (\<lambda>metadata.
           py_getitem metadata (ascii ''has_text'')) = Inr (JBool (problem_text \<noteq> None))"
proof -
  from solve_problem_success [OF assms] obtain r
    where "solve_response problem_text image_file r = Inr body" ..
  from solve_response_metadata [OF this] show ?thesis
    by (simp add: and_then_def ascii_def)
qed

lemma optional_form_field_simps:
  "optional_form_field None = None"
  "optional_form_field (Some []) = None"
  "s \<noteq> [] \<Longrightarrow> optional_form_field (Some s) = Some s"
  by (simp_all add: optional_form_field_def)

lemma optional_form_field_supplied:
  "optional_form_field field \<noteq> None \<longleftrightarrow> field \<noteq> None \<and> field \<noteq> Some []"
  by (simp add: optional_form_field_def split: option.split)

text \<open>
  Claim C10, as the code has it. An empty \<open>problem_text\<close> is handled like an absent one:
  FastAPI passes \<^verbatim>\<open>None\<close> to the handler for an empty form field, so the two requests
  have the same answer, and the handler's own check of line 219 and language test of line
  241 treat the empty string as they treat \<^verbatim>\<open>None\<close>. Without image the request is rejected
  and nothing is sent; with an image the text part is the default English instruction.
  The field \<open>has_text\<close> of a successful answer is true exactly when the handler's
  \<open>problem_text\<close> is not \<^verbatim>\<open>None\<close>, which for a request means that the form field was
  supplied with a value that is not empty.
\<close>

theorem empty_text_and_has_text:
  "post_solve e (Some []) image_file sent = post_solve e None image_file sent
   \<and> solve_problem e (Some []) None sent = solve_problem e None None sent
   \<and> (\<exists>err. fst (post_solve e (Some []) None sent) = Inl err)
   \<and> snd (post_solve e (Some []) None sent) = sent
   \<and> \<not> is_arabic_guarded (Some [])
   \<and> image_instruction (Some []) = DEFAULT_IMAGE_INSTRUCTION
   \<and> image_instruction None = DEFAULT_IMAGE_INSTRUCTION
   \<and> (read img = Inr image_data \<longrightarrow>
        snd (post_solve e (Some []) (Some img) sent) =
          sent @ [groq_request e
                    [system_message,
                     user_message
                       (image_parts (str_or (content_type img) (ascii ''image/jpeg''))
                          (b64encode image_data) DEFAULT_IMAGE_INSTRUCTION)]
                    DEFAULT_MODEL])
   \<and> (fst (solve_problem e problem_text image_file sent) = Inr body \<longrightarrow>
        and_then (py_getitem body (ascii ''metadata'')) (\<lambda>metadata.
          py_getitem metadata (ascii ''has_text'')) = Inr (JBool (problem_text \<noteq> None)))
   \<and> (fst (post_solve e field image_file sent) = Inr body \<longrightarrow>
        and_then (py_getitem body (ascii ''metadata'')) (\<lambda>metadata.
          py_getitem metadata (ascii ''has_text'')) =
        Inr (JBool (field \<noteq> None \<and> field \<noteq> Some [])))"
proof -
  have same: "post_solve e (Some []) image_file sent = post_solve e None image_file sent"
    by (simp add: post_solve_def optional_form_field_simps)
  have rejected: "solve_problem e (Some []) None sent = solve_problem e None None sent"
    "\<exists>err. fst (post_solve e (Some []) None sent) = Inl err"
    "snd (post_solve e (Some []) None sent) = sent"
    by (simp_all add: post_solve_def optional_form_field_simps solve_problem_rejected
          str_truthy_def)
  have instruction: "\<not> is_arabic_guarded (Some [])"
    "image_instruction (Some []) = DEFAULT_IMAGE_INSTRUCTION"
    "image_instruction None = DEFAULT_IMAGE_INSTRUCTION"
    by (simp_all add: image_instruction_def is_arabic_guarded_def str_or_def)
  have with_image: "snd (post_solve e (Some []) (Some img) sent) =
      sent @ [groq_request e
                [system_message,
                 user_message
                   (image_parts (str_or (content_type img) (ascii ''image/jpeg''))
                      (b64encode image_data) DEFAULT_IMAGE_INSTRUCTION)]
                DEFAULT_MODEL]"
    if "read img = Inr image_data"
    using that instruction(3)
    by (simp add: post_solve_def optional_form_field_simps solve_problem_sent
          solve_image_message)
  have handler: "and_then (py_getitem body (ascii ''metadata'')) (\<lambda>metadata.
        py_getitem metadata (ascii ''has_text'')) = Inr (JBool (problem_text \<noteq> None))"
    if "fst (solve_problem e problem_text image_file sent) = Inr body"
    using that by (rule solve_problem_has_text)
  have endpoint: "and_then (py_getitem body (ascii ''metadata'')) (\<lambda>metadata.
        py_getitem metadata (ascii ''has_text'')) =
      Inr (JBool (field \<noteq> None \<and> field \<noteq> Some []))"
    if "fst (post_solve e field image_file sent) = Inr body"
  proof -
    from that
    have "fst (solve_problem e (optional_form_field field) image_file sent) = Inr body"
      by (simp add: post_solve_def)
    from solve_problem_has_text [OF this] show ?thesis
      by (simp only: optional_form_field_supplied)
  qed
  from same rejected instruction with_image handler endpoint show ?thesis by blast
qed

theorem empty_text_and_has_text_witness:
  "snd (post_solve example_env (Some []) (Some example_image) []) =
     [groq_request example_env
        [system_message,
         user_message
           (image_parts (ascii ''image/jpeg'') (ascii ''TWFu'') DEFAULT_IMAGE_INSTRUCTION)]
        DEFAULT_MODEL]
   \<and> and_then
        (and_then (fst (post_solve example_env (Some (ascii ''2x+5=13'')) None []))
           (\<lambda>body. py_getitem body (ascii ''metadata'')))
        (\<lambda>metadata. py_getitem metadata (ascii ''has_text'')) = Inr (JBool True)"
proof -
  have bytes: "read example_image = Inr [0x4D, 0x61, 0x6E]"
    and mime: "str_or (content_type example_image) (ascii ''image/jpeg'') = ascii ''image/jpeg''"
    by (simp_all add: example_image_def str_or_def)
  have encoded: "b64encode [0x4D, 0x61, 0x6E] = ascii ''TWFu''"
    by (simp add: ascii_def b64_char_def)
  have sent_image: "snd (post_solve example_env (Some []) (Some example_image) []) =
     [groq_request example_env
        [system_message,
         user_message
           (image_parts (ascii ''image/jpeg'') (ascii ''TWFu'') DEFAULT_IMAGE_INSTRUCTION)]
        DEFAULT_MODEL]"
    using bytes mime encoded
      empty_text_and_has_text [where e = example_env and img = example_image
        and image_data = "[0x4D, 0x61, 0x6E]" and sent = "[]" and image_file = None
        and problem_text = None and field = None and body = JNull]
    by simp
  have field: "ascii ''2x+5=13'' \<noteq> []"
    by (simp add: ascii_def)
  then have "fst (post_solve example_env (Some (ascii ''2x+5=13'')) None []) =
      fst (solve_problem example_env (Some (ascii ''2x+5=13'')) None [])"
    by (simp add: post_solve_def optional_form_field_simps)
  also have "\<dots> =
      Inr (JObj [(ascii ''success'', JBool True),
                 (ascii ''solution'', JStr (ascii ''x = 4'')),
                 (ascii ''model'', JStr (ascii ''llama-3.3-70b-versatile'')),
                 (ascii ''usage'', JObj []),
                 (ascii ''metadata'',
                    JObj [(ascii ''has_image'', JBool False),
                          (ascii ''has_text'', JBool True),
                          (ascii ''teaching_mode'', JStr (ascii ''adaptive''))])])"
    using example_solve_answer [of "Some (ascii ''2x+5=13'')" None _ "[]"] field
    by (simp add: str_truthy_def solve_text_message)
  finally obtain body
    where body: "fst (post_solve example_env (Some (ascii ''2x+5=13'')) None []) = Inr body"
    by blast
  from body field
    empty_text_and_has_text [where e = example_env and field = "Some (ascii ''2x+5=13'')"
      and image_file = None and sent = "[]" and body = body and problem_text = None
      and img = example_image and image_data = "[]"]
  have "and_then (py_getitem body (ascii ''metadata'')) (\<lambda>metadata.
          py_getitem metadata (ascii ''has_text'')) = Inr (JBool True)"
    by simp
  with body sent_image show ?thesis by (simp add: and_then_def)
qed

text \<open>
  The claim as the spec states it fails: a request with an image and the form field
  \<open>problem_text\<close> supplied as the empty string succeeds, and its \<open>has_text\<close> is false.
\<close>

theorem empty_field_has_text_counterexample:
  "and_then
     (and_then (fst (post_solve example_env (Some []) (Some example_image) []))
        (\<lambda>body. py_getitem body (ascii ''metadata'')))
     (\<lambda>metadata. py_getitem metadata (ascii ''has_text'')) = Inr (JBool False)"
proof -
  have "read example_image = Inr [0x4D, 0x61, 0x6E]"
    by (simp add: example_image_def)
  from solve_image_message [OF this, of None]
  have "fst (solve_problem example_env None (Some example_image) []) =
      Inr (JObj [(ascii ''success'', JBool True),
                 (ascii ''solution'', JStr (ascii ''x = 4'')),
                 (ascii ''model'', JStr (ascii ''llama-3.3-70b-versatile'')),
                 (ascii ''usage'', JObj []),
                 (ascii ''metadata'',
                    JObj [(ascii ''has_image'', JBool True),
                          (ascii ''has_text'', JBool False),
                          (ascii ''teaching_mode'', JStr (ascii ''adaptive''))])])"
    using example_solve_answer [of None "Some example_image" _ "[]"] by simp
  then show ?thesis
    by (simp add: post_solve_def optional_form_field_simps and_then_def ascii_def)
qed


end
